theory Spec2Isabelle
  imports Complex_Main
begin

section \<open>JavaScript strings and values\<close>

text \<open>
  Strings are character lists. Only the string operations the program calls are
  modelled: \<open>toLowerCase\<close> acts on the ASCII range (every literal the program compares
  a lower-cased string against is ASCII), \<open>str_includes\<close> is the substring test
  \<open>s.includes(sub)\<close> and \<open>startsWith\<close> the prefix test. \<open>String.prototype.trim\<close> and
  the rendering of a number in a template literal are functions of the environment
  (section \<open>The environment of the program\<close>).
\<close>

definition toLowerChar :: "char \<Rightarrow> char" where
  "toLowerChar c =
     (let n = (of_char c :: nat) in if 65 \<le> n \<and> n \<le> 90 then char_of (n + 32) else c)"

definition toLowerCase :: "string \<Rightarrow> string" where
  "toLowerCase s = map toLowerChar s"

definition startsWith :: "string \<Rightarrow> string \<Rightarrow> bool" where
  "startsWith s p = (take (length p) s = p)"

fun str_includes :: "string \<Rightarrow> string \<Rightarrow> bool" where
  "str_includes [] sub = (sub = [])"
| "str_includes (c # cs) sub = (if startsWith (c # cs) sub then True else str_includes cs sub)"

text \<open>Truthiness of an optional string: \<open>undefined\<close> and the empty string are falsy.\<close>

fun truthy :: "string option \<Rightarrow> bool" where
  "truthy None = False"
| "truthy (Some s) = (s \<noteq> [])"

text \<open>
  A JavaScript number: a finite value (every finite double is a rational), \<open>NaN\<close> or
  an infinity. \<open>numberAtLeast x n\<close> is \<open>x >= n\<close>.
\<close>

datatype js_number = Finite rat | NaN | PosInfinity | NegInfinity

fun numberAtLeast :: "js_number \<Rightarrow> rat \<Rightarrow> bool" where
  "numberAtLeast (Finite q) n = (n \<le> q)"
| "numberAtLeast NaN n = False"
| "numberAtLeast PosInfinity n = True"
| "numberAtLeast NegInfinity n = False"

text \<open>
  The \<open>message\<close> property of a thrown value that is not an \<open>Error\<close>: absent
  (\<open>undefined\<close> or \<open>null\<close>), a string, or a value of another type, one without a
  \<open>toLowerCase\<close> method (a number, a boolean, a plain object).
\<close>

datatype message_prop = NoMessage | StringMessage string | OtherMessage

text \<open>
  A thrown value. \<open>ApiError status message\<close> is an instance of the SDK's \<open>ApiError\<close>
  class (itself an \<open>Error\<close>); \<open>JsError status message\<close> is any other \<open>Error\<close>, with
  its \<open>status\<close> property when that is a number; \<open>NonError status message repr\<close> is a
  thrown value that is not an \<open>Error\<close>, with its \<open>status\<close> property when that is a
  number, its \<open>message\<close> property and \<open>repr\<close> for \<open>String(value)\<close>. The message of
  an \<open>Error\<close> is a string, as the \<open>Error\<close> constructor makes it.
\<close>

datatype thrown =
    ApiError js_number string
  | JsError "js_number option" string
  | NonError "js_number option" message_prop string

fun instanceofError :: "thrown \<Rightarrow> bool" where
  "instanceofError (ApiError s m) = True"
| "instanceofError (JsError s m) = True"
| "instanceofError (NonError s m r) = False"

text \<open>The finite value of a number, and the finite numeric status of a thrown value.\<close>

fun finite_value :: "js_number \<Rightarrow> rat option" where
  "finite_value (Finite q) = Some q"
| "finite_value NaN = None"
| "finite_value PosInfinity = None"
| "finite_value NegInfinity = None"

fun status_of :: "thrown \<Rightarrow> rat option" where
  "status_of (ApiError s m) = finite_value s"
| "status_of (JsError s m) = (case s of None \<Rightarrow> None | Some x \<Rightarrow> finite_value x)"
| "status_of (NonError s m r) = (case s of None \<Rightarrow> None | Some x \<Rightarrow> finite_value x)"

text \<open>The message of a thrown value when it is a string.\<close>

fun message_of :: "thrown \<Rightarrow> string option" where
  "message_of (ApiError s m) = Some m"
| "message_of (JsError s m) = Some m"
| "message_of (NonError s NoMessage r) = None"
| "message_of (NonError s (StringMessage m) r) = Some m"
| "message_of (NonError s OtherMessage r) = None"

text \<open>\<open>error instanceof Error ? error.message : String(error)\<close>\<close>

fun messageOrString :: "thrown \<Rightarrow> string" where
  "messageOrString (ApiError s m) = m"
| "messageOrString (JsError s m) = m"
| "messageOrString (NonError s m r) = r"

abbreviation newError :: "string \<Rightarrow> thrown" where
  "newError m \<equiv> JsError None m"

section \<open>The environment of the program\<close>

text \<open>
  What the backend returns (\<open>GenerateContentResponse\<close> of the SDK, with its optional
  fields as options).
\<close>

record blob =
  blob_data :: "string option"

record part =
  part_inlineData :: "blob option"
  part_text :: "string option"

record content =
  content_parts :: "part list option"

record candidate =
  candidate_content :: "content option"

record response =
  response_candidates :: "candidate list option"

text \<open>
  The operations on the file system, and the history of those performed. The outcome of
  an operation is given by the environment as a function of the history so far and the
  operation: either it throws, or it succeeds with a number (the size, for \<open>stat\<close>).
\<close>

datatype fs_op =
    Mkdir string
  | WriteFile string string
  | Stat string

text \<open>
  Everything outside the program: the process environment, the SDK's backend call
  (by the API key of the client, the model, the prompt and the number of calls made
  before in this invocation), the JPEG re-encoding of a base64 string (\<open>sharp\<close>, which
  may throw), Node's \<open>os\<close>, \<open>path\<close> and \<open>Buffer\<close> functions, the file system, the
  clock and the random source (the last two by the history of file operations, so that
  successive calls may differ), and three things of the language itself:
  \<open>String.prototype.trim\<close>, the rendering of a number in a template literal, and the
  \<open>TypeError\<close> that the engine throws when \<open>toLowerCase\<close> is called on a value that
  has no such method.
\<close>

record sys =
  process_env :: "string \<Rightarrow> string option"
  generateContent :: "string \<Rightarrow> string \<Rightarrow> string \<Rightarrow> nat \<Rightarrow> thrown + response"
  sharp_jpeg :: "string \<Rightarrow> thrown + string"
  os_homedir :: string
  os_tmpdir :: string
  path_isAbsolute :: "string \<Rightarrow> bool"
  path_resolve :: "string \<Rightarrow> string"
  path_join :: "string \<Rightarrow> string \<Rightarrow> string"
  path_extname :: "string \<Rightarrow> string"
  path_dirname :: "string \<Rightarrow> string"
  buffer_from_base64 :: "string \<Rightarrow> string"
  fs_outcome :: "fs_op list \<Rightarrow> fs_op \<Rightarrow> thrown + nat"
  date_toISOString :: "fs_op list \<Rightarrow> string"
  math_random_toString36 :: "fs_op list \<Rightarrow> string"
  string_trim :: "string \<Rightarrow> string"
  number_toString :: "js_number \<Rightarrow> string"
  toLowerCase_typeError :: thrown

section \<open>gemini.ts\<close>

definition DEFAULT_IMAGE_MODEL :: string where
  "DEFAULT_IMAGE_MODEL = ''gemini-3-pro-image-preview''"

definition MAX_RETRIES :: nat where
  "MAX_RETRIES = 2"

definition RETRY_BACKOFF_MS :: nat where
  "RETRY_BACKOFF_MS = 500"

definition RETRYABLE_STATUS_CODES :: "rat set" where
  "RETRYABLE_STATUS_CODES = {408, 429, 500, 502, 503, 504}"

definition missingKeyMessage :: string where
  "missingKeyMessage =
     ''GEMINI_API_KEY (or GOOGLE_API_KEY) environment variable is required for image generation.''"

text \<open>\<open>a ?? b\<close> on optional strings.\<close>

fun nullish :: "'a option \<Rightarrow> 'a option \<Rightarrow> 'a option" where
  "nullish (Some a) b = Some a"
| "nullish None b = b"

definition getConfiguredApiKey :: "sys \<Rightarrow> thrown + string" where
  "getConfiguredApiKey S =
     (let apiKey = nullish (process_env S ''GEMINI_API_KEY'') (process_env S ''GOOGLE_API_KEY'')
      in case apiKey of
           None \<Rightarrow> Inl (newError missingKeyMessage)
         | Some k \<Rightarrow> if k = [] then Inl (newError missingKeyMessage) else Inr k)"

definition getModelName :: "sys \<Rightarrow> string" where
  "getModelName S =
     (let configuredModel = map_option (string_trim S) (process_env S ''GEMINI_IMAGE_MODEL'')
      in case configuredModel of
           None \<Rightarrow> DEFAULT_IMAGE_MODEL
         | Some m \<Rightarrow> if m \<noteq> [] then m else DEFAULT_IMAGE_MODEL)"

text \<open>
  The module's client cache. A client is identified by the API key it was constructed
  with.
\<close>

record client_cache =
  cachedClient :: "string option"
  cachedApiKey :: "string option"

definition getClient :: "sys \<Rightarrow> client_cache \<Rightarrow> thrown + (client_cache \<times> string)" where
  "getClient S cache =
     (case getConfiguredApiKey S of
        Inl e \<Rightarrow> Inl e
      | Inr apiKey \<Rightarrow>
          (case cachedClient cache of
             None \<Rightarrow> Inr (\<lparr>cachedClient = Some apiKey, cachedApiKey = Some apiKey\<rparr>, apiKey)
           | Some client \<Rightarrow>
               if cachedApiKey cache \<noteq> Some apiKey
               then Inr (\<lparr>cachedClient = Some apiKey, cachedApiKey = Some apiKey\<rparr>, apiKey)
               else Inr (cache, client)))"

text \<open>
  The classifier. \<open>hasRetryableStatus\<close> is the test of the status: for an \<open>ApiError\<close>
  \<open>RETRYABLE_STATUS_CODES.has(error.status)\<close>, for another value that test under
  \<open>typeof status === "number"\<close>. \<open>messageLower\<close> is the lower-cased message, the empty
  string's when there is none, and \<open>messageTests\<close> the five substring tests. For a
  message that is not a string, the call of \<open>toLowerCase\<close> throws, inside the \<open>catch\<close>
  block of \<open>generateImage\<close>.
\<close>

definition hasRetryableStatus :: "thrown \<Rightarrow> bool" where
  "hasRetryableStatus e =
     (case status_of e of None \<Rightarrow> False | Some s \<Rightarrow> s \<in> RETRYABLE_STATUS_CODES)"

definition messageLower :: "thrown \<Rightarrow> string" where
  "messageLower e = toLowerCase (case message_of e of None \<Rightarrow> [] | Some m \<Rightarrow> m)"

definition messageTests :: "string \<Rightarrow> bool" where
  "messageTests message =
     (str_includes message ''timeout'' \<or>
      str_includes message ''timed out'' \<or>
      str_includes message ''etimedout'' \<or>
      str_includes message ''econnreset'' \<or>
      str_includes message ''temporar'')"

fun isRetryableGeminiError :: "sys \<Rightarrow> thrown \<Rightarrow> thrown + bool" where
  "isRetryableGeminiError S (ApiError s m) = Inr (hasRetryableStatus (ApiError s m))"
| "isRetryableGeminiError S (JsError s m) =
     Inr (if hasRetryableStatus (JsError s m) then True
          else messageTests (messageLower (JsError s m)))"
| "isRetryableGeminiError S (NonError s mp r) =
     (if hasRetryableStatus (NonError s mp r) then Inr True
      else (case mp of
              NoMessage \<Rightarrow> Inr (messageTests (messageLower (NonError s mp r)))
            | StringMessage m \<Rightarrow> Inr (messageTests (messageLower (NonError s mp r)))
            | OtherMessage \<Rightarrow> Inl (toLowerCase_typeError S)))"

fun toUserFacingGeminiError :: "sys \<Rightarrow> thrown \<Rightarrow> thrown" where
  "toUserFacingGeminiError S (ApiError s m) =
     (if s = Finite 401 \<or> s = Finite 403
      then newError ''Gemini API authentication failed. Check GEMINI_API_KEY/GOOGLE_API_KEY and permissions.''
      else if s = Finite 429
      then newError ''Gemini API rate limit reached. Please retry in a moment.''
      else if numberAtLeast s 500
      then newError ''Gemini API is temporarily unavailable. Please retry shortly.''
      else newError (''Gemini API request failed (status '' @ number_toString S s @ ''): '' @ m))"
| "toUserFacingGeminiError S (JsError s m) = newError (''Failed to generate image: '' @ m)"
| "toUserFacingGeminiError S (NonError s m r) =
     newError ''Failed to generate image due to an unknown error.''"

text \<open>The value \<open>generateImage\<close> resolves to.\<close>

record image_result =
  result_data :: string
  result_mimeType :: string
  result_model :: string
  result_text :: "string option"

text \<open>
  The loop over the parts of the first candidate: the state is the pair of the local
  variables \<open>imageData\<close> and \<open>text\<close>.
\<close>

text \<open>\<open>part.inlineData?.data\<close>\<close>

definition inlineDataOf :: "part \<Rightarrow> string option" where
  "inlineDataOf p = (case part_inlineData p of None \<Rightarrow> None | Some b \<Rightarrow> blob_data b)"

fun scanPart :: "string option \<times> string option \<Rightarrow> part \<Rightarrow> string option \<times> string option" where
  "scanPart (imageData, txt) p =
     (if truthy (inlineDataOf p)
      then (inlineDataOf p, txt)
      else if truthy (part_text p)
      then (imageData,
            (case txt of
               None \<Rightarrow> part_text p
             | Some t \<Rightarrow> if t \<noteq> [] then map_option (\<lambda>pt. t @ [CHR 0x0A] @ pt) (part_text p)
                         else part_text p))
      else (imageData, txt))"

definition scanParts :: "part list \<Rightarrow> string option \<times> string option" where
  "scanParts ps = foldl scanPart (None, None) ps"

text \<open>\<open>response.candidates?.[0]?.content?.parts\<close>\<close>

definition firstCandidateParts :: "response \<Rightarrow> part list option" where
  "firstCandidateParts r =
     (case response_candidates r of
        None \<Rightarrow> None
      | Some [] \<Rightarrow> None
      | Some (c # cs) \<Rightarrow>
          (case candidate_content c of None \<Rightarrow> None | Some ct \<Rightarrow> content_parts ct))"

text \<open>The body of the \<open>try\<close> block of one attempt.\<close>

definition attemptBody :: "sys \<Rightarrow> string \<Rightarrow> string \<Rightarrow> string \<Rightarrow> nat \<Rightarrow> thrown + image_result" where
  "attemptBody S client model prompt attempt =
     (case generateContent S client model prompt attempt of
        Inl e \<Rightarrow> Inl e
      | Inr resp \<Rightarrow>
          (case firstCandidateParts resp of
             None \<Rightarrow> Inl (newError ''No content parts returned from Gemini API.'')
           | Some [] \<Rightarrow> Inl (newError ''No content parts returned from Gemini API.'')
           | Some (p # ps) \<Rightarrow>
               (case scanParts (p # ps) of
                  (None, txt) \<Rightarrow> Inl (newError ''No image data found in the response.'')
                | (Some imageData, txt) \<Rightarrow>
                    if imageData = []
                    then Inl (newError ''No image data found in the response.'')
                    else (case sharp_jpeg S imageData of
                            Inl e \<Rightarrow> Inl e
                          | Inr jpg \<Rightarrow>
                              Inr \<lparr>result_data = jpg,
                                   result_mimeType = ''image/jpeg'',
                                   result_model = model,
                                   result_text = (if truthy txt then txt else None)\<rparr>))))"

text \<open>
  What an invocation does, in order: calls of the backend (with the attempt number),
  backoff sleeps (with the delay), translations of an error for the caller, and the
  \<open>throw\<close> that follows the loop.
\<close>

datatype gen_event =
    GenerateContent nat
  | Sleep nat
  | ToUserFacing thrown
  | ThrowAfterLoop

text \<open>
  The \<open>for\<close> loop of \<open>generateImage\<close>, from \<open>attempt\<close> on, with the \<open>throw\<close> that follows
  the loop as the final branch. What the classifier throws leaves the \<open>catch\<close> block as
  it is.
\<close>

definition afterLoopError :: thrown where
  "afterLoopError = newError ''Failed to generate image after retry attempts.''"

function generateImage_loop ::
  "sys \<Rightarrow> string \<Rightarrow> string \<Rightarrow> string \<Rightarrow> nat \<Rightarrow> gen_event list \<Rightarrow> gen_event list \<times> (thrown + image_result)"
where
  "generateImage_loop S client model prompt attempt tr =
     (if attempt \<le> MAX_RETRIES then
        (case attemptBody S client model prompt attempt of
           Inr r \<Rightarrow> (tr @ [GenerateContent attempt], Inr r)
         | Inl error \<Rightarrow>
             (case isRetryableGeminiError S error of
                Inl thrownInCatch \<Rightarrow> (tr @ [GenerateContent attempt], Inl thrownInCatch)
              | Inr retryable \<Rightarrow>
                  if retryable \<and> attempt < MAX_RETRIES
                  then generateImage_loop S client model prompt (attempt + 1)
                         (tr @ [GenerateContent attempt, Sleep (RETRY_BACKOFF_MS * 2 ^ attempt)])
                  else (tr @ [GenerateContent attempt, ToUserFacing error],
                        Inl (toUserFacingGeminiError S error))))
      else (tr @ [ThrowAfterLoop], Inl afterLoopError))"
  by pat_completeness auto
termination
  by (relation "measure (\<lambda>(S, client, model, prompt, attempt, tr). Suc MAX_RETRIES - attempt)") auto

definition generateImage ::
  "sys \<Rightarrow> client_cache \<Rightarrow> string \<Rightarrow> client_cache \<times> gen_event list \<times> (thrown + image_result)"
where
  "generateImage S cache prompt =
     (case getClient S cache of
        Inl e \<Rightarrow> (cache, [], Inl e)
      | Inr (cache', client) \<Rightarrow>
          (case generateImage_loop S client (getModelName S) prompt 0 [] of
             (tr, r) \<Rightarrow> (cache', tr, r)))"

section \<open>tools.ts, the variant with fallback directories\<close>

definition JPEG_EXTENSIONS :: "string set" where
  "JPEG_EXTENSIONS = {''.jpg'', ''.jpeg''}"

definition extensionPhrase :: string where
  "extensionPhrase = ''must use a .jpg or .jpeg extension''"

definition invalidExtensionMessage :: "string \<Rightarrow> string" where
  "invalidExtensionMessage ext =
     ''save_path must use a .jpg or .jpeg extension because this tool outputs JPEG data, got: '' @ ext"

definition emptyPayloadMessage :: string where
  "emptyPayloadMessage = ''Image data is empty, nothing to save.''"

text \<open>
  \<open>buildGeneratedFileName\<close>, at the history \<open>h\<close> of file operations:
  \<open>replace(/[:.]/g, "-")\<close> on the ISO timestamp and \<open>substring(2, 8)\<close> of the random
  number in base 36.
\<close>

definition buildGeneratedFileName :: "sys \<Rightarrow> fs_op list \<Rightarrow> string" where
  "buildGeneratedFileName S h =
     (let timestamp = map (\<lambda>c. if c = CHR '':'' \<or> c = CHR ''.'' then CHR ''-'' else c)
                          (date_toISOString S h);
          randomId = take 6 (drop 2 (math_random_toString36 S h))
      in ''generated-'' @ timestamp @ ''-'' @ randomId @ ''.jpg'')"

definition expandUserPath :: "sys \<Rightarrow> string \<Rightarrow> string" where
  "expandUserPath S inputPath =
     (if inputPath = ''~'' then os_homedir S
      else if startsWith inputPath ''~/'' \<or> startsWith inputPath [CHR ''~'', CHR 0x5C]
      then path_join S (os_homedir S) (drop 2 inputPath)
      else inputPath)"

definition normalizePathInput :: "sys \<Rightarrow> string \<Rightarrow> string" where
  "normalizePathInput S inputPath =
     (let expanded = expandUserPath S inputPath
      in if path_isAbsolute S expanded then expanded else path_resolve S expanded)"

text \<open>\<open>Array.from(new Set(xs))\<close>: the first occurrence of each element, in order.\<close>

fun uniq :: "'a list \<Rightarrow> 'a list \<Rightarrow> 'a list" where
  "uniq seen [] = []"
| "uniq seen (x # xs) = (if x \<in> set seen then uniq seen xs else x # uniq (x # seen) xs)"

definition getDefaultOutputDirectories :: "sys \<Rightarrow> string list" where
  "getDefaultOutputDirectories S =
     (let configured = map_option (string_trim S) (process_env S ''IMAGE_OUTPUT_DIR'');
          candidates =
            [(case configured of
                None \<Rightarrow> None
              | Some c \<Rightarrow> if c \<noteq> [] then Some (normalizePathInput S c) else None),
             Some (path_join S (os_homedir S) ''nano-banana-images''),
             Some (path_join S (os_tmpdir S) ''nano-banana-images'')]
      in uniq [] (filter (\<lambda>v. v \<noteq> []) (List.map_filter id candidates)))"

text \<open>
  \<open>resolveOutputFilePath(savePath?, defaultDir?)\<close> at history \<open>h\<close>: the new history
  and the path, or what was thrown. With no target at all, \<open>path.extname(undefined)\<close>
  throws a \<open>TypeError\<close>.
\<close>

definition effectiveTarget :: "sys \<Rightarrow> string option \<Rightarrow> string option \<Rightarrow> string option" where
  "effectiveTarget S savePath defaultDir =
     (case savePath of
        Some sp \<Rightarrow>
          if sp \<noteq> [] then Some (normalizePathInput S sp)
          else nullish defaultDir (case getDefaultOutputDirectories S of [] \<Rightarrow> None | d # ds \<Rightarrow> Some d)
      | None \<Rightarrow>
          nullish defaultDir (case getDefaultOutputDirectories S of [] \<Rightarrow> None | d # ds \<Rightarrow> Some d))"

definition resolveTarget :: "sys \<Rightarrow> fs_op list \<Rightarrow> string \<Rightarrow> fs_op list \<times> (thrown + string)" where
  "resolveTarget S h targetPath =
     (let ext = path_extname S targetPath
      in if ext = [] then
           (case fs_outcome S h (Mkdir targetPath) of
              Inl e \<Rightarrow> (h @ [Mkdir targetPath], Inl e)
            | Inr u \<Rightarrow>
                (h @ [Mkdir targetPath],
                 Inr (path_join S targetPath (buildGeneratedFileName S (h @ [Mkdir targetPath])))))
         else if toLowerCase ext \<notin> JPEG_EXTENSIONS then
           (h, Inl (newError (invalidExtensionMessage ext)))
         else
           (case fs_outcome S h (Mkdir (path_dirname S targetPath)) of
              Inl e \<Rightarrow> (h @ [Mkdir (path_dirname S targetPath)], Inl e)
            | Inr u \<Rightarrow> (h @ [Mkdir (path_dirname S targetPath)], Inr targetPath)))"

definition resolveOutputFilePath ::
  "sys \<Rightarrow> fs_op list \<Rightarrow> string option \<Rightarrow> string option \<Rightarrow> fs_op list \<times> (thrown + string)"
where
  "resolveOutputFilePath S h savePath defaultDir =
     (case effectiveTarget S savePath defaultDir of
        None \<Rightarrow>
          (h, Inl (newError (''The '' @ [CHR 0x22] @ ''path'' @ [CHR 0x22] @
                           '' argument must be of type string. Received undefined'')))
      | Some targetPath \<Rightarrow> resolveTarget S h targetPath)"

record SaveImageResult =
  filePath :: string
  warning :: "string option"

record attempt =
  attempt_savePath :: "string option"
  attempt_defaultDir :: "string option"
  attempt_label :: string

text \<open>The list \<open>attempts\<close> that \<open>saveImage\<close> builds.\<close>

definition fallbackLabels :: "string option \<Rightarrow> string list \<Rightarrow> string list" where
  "fallbackLabels savePath defaultDirectories =
     (if truthy savePath \<and> length defaultDirectories > 0
      then map (\<lambda>dir. ''fallback directory '' @ [CHR 0x27] @ dir @ [CHR 0x27]) defaultDirectories
      else [''default directory '' @ [CHR 0x27] @
              (case defaultDirectories of [] \<Rightarrow> ''undefined'' | d # ds \<Rightarrow> d) @ [CHR 0x27]])"

definition buildAttempts :: "string option \<Rightarrow> string list \<Rightarrow> attempt list" where
  "buildAttempts savePath defaultDirectories =
     (case savePath of
        None \<Rightarrow> []
      | Some sp \<Rightarrow>
          if sp \<noteq> []
          then [\<lparr>attempt_savePath = Some sp, attempt_defaultDir = None,
                 attempt_label = ''requested save_path '' @ [CHR 0x27] @ sp @ [CHR 0x27]\<rparr>]
          else [])
     @ map (\<lambda>(index, dir).
              \<lparr>attempt_savePath = None, attempt_defaultDir = Some dir,
               attempt_label =
                 (if index < length (fallbackLabels savePath defaultDirectories)
                  then fallbackLabels savePath defaultDirectories ! index
                  else ''fallback directory '' @ [CHR 0x27] @ dir @ [CHR 0x27])\<rparr>)
           (enumerate 0 defaultDirectories)"

text \<open>
  The part of the \<open>try\<close> block of one attempt that can throw: resolve, write, stat and
  the check of the size.
\<close>

definition saveAttempt ::
  "sys \<Rightarrow> fs_op list \<Rightarrow> string \<Rightarrow> attempt \<Rightarrow> fs_op list \<times> (thrown + string)"
where
  "saveAttempt S h buffer a =
     (case resolveOutputFilePath S h (attempt_savePath a) (attempt_defaultDir a) of
        (h1, Inl e) \<Rightarrow> (h1, Inl e)
      | (h1, Inr path) \<Rightarrow>
          (case fs_outcome S h1 (WriteFile path buffer) of
             Inl e \<Rightarrow> (h1 @ [WriteFile path buffer], Inl e)
           | Inr u \<Rightarrow>
               (case fs_outcome S (h1 @ [WriteFile path buffer]) (Stat path) of
                  Inl e \<Rightarrow> (h1 @ [WriteFile path buffer, Stat path], Inl e)
                | Inr fileSize \<Rightarrow>
                    if fileSize = 0
                    then (h1 @ [WriteFile path buffer, Stat path],
                          Inl (newError (''File was written but is empty: '' @ path)))
                    else (h1 @ [WriteFile path buffer, Stat path], Inr path))))"

definition fallbackWarning :: "string \<Rightarrow> string \<Rightarrow> string" where
  "fallbackWarning sp firstFailureMessage =
     ''Requested save_path '' @ [CHR 0x27] @ sp @ [CHR 0x27] @ '' failed ('' @ firstFailureMessage @
     ''). Saved to fallback path instead.''"

text \<open>The test of the \<open>catch\<close> block that makes a failure fatal.\<close>

definition isFatalExtensionError :: "attempt \<Rightarrow> thrown \<Rightarrow> bool" where
  "isFatalExtensionError a error =
     (truthy (attempt_savePath a) \<and> instanceofError error \<and>
      str_includes (messageOrString error) extensionPhrase)"

text \<open>
  The loop over the attempts, with the local variables \<open>firstFailureMessage\<close> and
  \<open>lastError\<close>, and the \<open>throw\<close> after the loop as the case of the empty list.
\<close>

fun saveImage_loop ::
  "sys \<Rightarrow> string option \<Rightarrow> string \<Rightarrow> attempt list \<Rightarrow> string option \<Rightarrow> thrown option \<Rightarrow>
   fs_op list \<Rightarrow> fs_op list \<times> (thrown + SaveImageResult)"
where
  "saveImage_loop S savePath buffer [] firstFailureMessage lastError h =
     (let fallbackSummary =
            (case firstFailureMessage of
               None \<Rightarrow> []
             | Some f \<Rightarrow> if f \<noteq> [] then '' First failure: '' @ f else []);
          lastMessage =
            (case lastError of
               None \<Rightarrow> ''Unknown filesystem save error.''
             | Some e \<Rightarrow> if instanceofError e then messageOrString e
                         else ''Unknown filesystem save error.'')
      in (h, Inl (newError (''Failed to save generated image. '' @ lastMessage @ ''.'' @ fallbackSummary))))"
| "saveImage_loop S savePath buffer (a # rest) firstFailureMessage lastError h =
     (case saveAttempt S h buffer a of
        (h', Inr path) \<Rightarrow>
          if truthy (attempt_savePath a) then (h', Inr \<lparr>filePath = path, warning = None\<rparr>)
          else if truthy savePath \<and> truthy firstFailureMessage
          then (h', Inr \<lparr>filePath = path,
                         warning = Some (fallbackWarning (case savePath of None \<Rightarrow> [] | Some sp \<Rightarrow> sp)
                                           (case firstFailureMessage of None \<Rightarrow> [] | Some f \<Rightarrow> f))\<rparr>)
          else (h', Inr \<lparr>filePath = path, warning = None\<rparr>)
      | (h', Inl error) \<Rightarrow>
          if isFatalExtensionError a error then (h', Inl error)
          else saveImage_loop S savePath buffer rest
                 (if \<not> truthy firstFailureMessage
                  then Some (attempt_label a @ '': '' @ messageOrString error)
                  else firstFailureMessage)
                 (Some error) h')"

definition saveImage ::
  "sys \<Rightarrow> fs_op list \<Rightarrow> string \<Rightarrow> string option \<Rightarrow> fs_op list \<times> (thrown + SaveImageResult)"
where
  "saveImage S h data savePath =
     (let buffer = buffer_from_base64 S data
      in if length buffer = 0 then (h, Inl (newError emptyPayloadMessage))
         else saveImage_loop S savePath buffer
                (buildAttempts savePath (getDefaultOutputDirectories S)) None None h)"

section \<open>tools.ts, the variant that requires an absolute path\<close>

definition resolveOutputFilePath_strict ::
  "sys \<Rightarrow> fs_op list \<Rightarrow> string \<Rightarrow> fs_op list \<times> (thrown + string)"
where
  "resolveOutputFilePath_strict S h savePath =
     (if \<not> path_isAbsolute S savePath
      then (h, Inl (newError (''save_path must be an absolute path, got: '' @ savePath)))
      else resolveTarget S h savePath)"

definition saveImage_strict ::
  "sys \<Rightarrow> fs_op list \<Rightarrow> string \<Rightarrow> string \<Rightarrow> fs_op list \<times> (thrown + string)"
where
  "saveImage_strict S h data savePath =
     (case resolveOutputFilePath_strict S h savePath of
        (h1, Inl e) \<Rightarrow> (h1, Inl e)
      | (h1, Inr path) \<Rightarrow>
          (let buffer = buffer_from_base64 S data
           in if length buffer = 0 then (h1, Inl (newError emptyPayloadMessage))
              else
                (case fs_outcome S h1 (WriteFile path buffer) of
                   Inl e \<Rightarrow> (h1 @ [WriteFile path buffer], Inl e)
                 | Inr u \<Rightarrow>
                     (case fs_outcome S (h1 @ [WriteFile path buffer]) (Stat path) of
                        Inl e \<Rightarrow> (h1 @ [WriteFile path buffer, Stat path], Inl e)
                      | Inr fileSize \<Rightarrow>
                          if fileSize = 0
                          then (h1 @ [WriteFile path buffer, Stat path],
                                Inl (newError (''File was written but is empty: '' @ path)))
                          else (h1 @ [WriteFile path buffer, Stat path], Inr path)))))"

section \<open>The tool handlers\<close>

record structured_content =
  sc_file_path :: string
  sc_mime_type :: string
  sc_model :: string
  sc_text :: "string option"

text \<open>
  The handler's answer: the text item of \<open>content\<close>, the image item (data and MIME
  type) when there is one, the structured content, and \<open>isError\<close> (absent on success).
\<close>

record tool_response =
  content_text :: string
  content_image :: "(string \<times> string) option"
  structuredContent :: "structured_content option"
  isError :: "bool option"


definition errorResponse :: "thrown \<Rightarrow> tool_response" where
  "errorResponse error =
     (let message = (if instanceofError error then messageOrString error else ''Unknown error'')
      in \<lparr>content_text = ''Error generating image: '' @ message,
          content_image = None,
          structuredContent = None,
          isError = Some True\<rparr>)"




section \<open>Vocabulary of the properties\<close>

text \<open>The attempts of a run and its backoff delays, read off its events.\<close>

fun isGenerateContent :: "gen_event \<Rightarrow> bool" where
  "isGenerateContent (GenerateContent k) = True"
| "isGenerateContent (Sleep d) = False"
| "isGenerateContent (ToUserFacing e) = False"
| "isGenerateContent ThrowAfterLoop = False"


definition attemptsMade :: "gen_event list \<Rightarrow> nat" where
  "attemptsMade tr = length (filter isGenerateContent tr)"


text \<open>
  The calls and sleeps of a run whose last attempt is attempt \<open>k\<close>: attempt 0, then for
  each further attempt a sleep of 500 times 2 to the number of the attempt that failed,
  and the attempt.
\<close>

fun schedule :: "nat \<Rightarrow> gen_event list" where
  "schedule 0 = [GenerateContent 0]"
| "schedule (Suc k) = schedule k @ [Sleep (500 * 2 ^ k), GenerateContent (Suc k)]"

text \<open>
  How a run ends at attempt \<open>k\<close>, given its events and its outcome: with the result of
  the attempt, with the translation of its failure (which the classifier found not
  retryable, unless \<open>k\<close> is the last attempt allowed), or with what the classifier threw
  on its failure.
\<close>

definition endsAt ::
  "sys \<Rightarrow> string \<Rightarrow> string \<Rightarrow> string \<Rightarrow> nat \<Rightarrow> gen_event list \<Rightarrow> (thrown + image_result) \<Rightarrow> bool"
where
  "endsAt S c m p k tr r =
     ((\<exists>res. attemptBody S c m p k = Inr res \<and> r = Inr res \<and> tr = schedule k) \<or>
      (\<exists>e b. attemptBody S c m p k = Inl e \<and> isRetryableGeminiError S e = Inr b \<and>
             (k < 2 \<longrightarrow> \<not> b) \<and>
             r = Inl (toUserFacingGeminiError S e) \<and> tr = schedule k @ [ToUserFacing e]) \<or>
      (\<exists>e x. attemptBody S c m p k = Inl e \<and> isRetryableGeminiError S e = Inl x \<and>
             r = Inl x \<and> tr = schedule k))"

text \<open>A part that carries inline image bytes, as the scan tests it.\<close>

definition carriesImage :: "part \<Rightarrow> bool" where
  "carriesImage p = truthy (inlineDataOf p)"

definition imagePart :: "string \<Rightarrow> part" where
  "imagePart d = \<lparr>part_inlineData = Some \<lparr>blob_data = Some d\<rparr>, part_text = None\<rparr>"

definition responseOfParts :: "part list \<Rightarrow> response" where
  "responseOfParts ps =
     \<lparr>response_candidates = Some [\<lparr>candidate_content = Some \<lparr>content_parts = Some ps\<rparr>\<rparr>]\<rparr>"

text \<open>
  The attempt that \<open>saveImage\<close> builds for the caller-supplied \<open>save_path\<close>, and the
  attempt it builds for a default directory (the label plays no role in what an
  attempt does).
\<close>

definition requestedAttempt :: "string \<Rightarrow> attempt" where
  "requestedAttempt sp =
     \<lparr>attempt_savePath = Some sp, attempt_defaultDir = None,
      attempt_label = ''requested save_path '' @ [CHR 0x27] @ sp @ [CHR 0x27]\<rparr>"

definition defaultAttempt :: "string \<Rightarrow> string \<Rightarrow> attempt" where
  "defaultAttempt dir label =
     \<lparr>attempt_savePath = None, attempt_defaultDir = Some dir, attempt_label = label\<rparr>"

section \<open>A concrete environment\<close>

text \<open>
  A small environment on which the definitions are run in the examples: no variable is
  set, the backend answers every call with status 503, re-encoding returns its input,
  every file operation succeeds and \<open>stat\<close> reports 21 bytes. Its path functions are
  simple stand-ins for Node's on a POSIX system (they look at the last \<open>/\<close> and the last
  \<open>.\<close> only); decoding base64 is the identity; trimming removes the ASCII white space
  only; an integer is rendered in decimal (what the language does below a magnitude of
  ten to the 21), a number with a fraction by its integer part.
\<close>

definition demo_isWhiteSpace :: "char \<Rightarrow> bool" where
  "demo_isWhiteSpace c = (let n = (of_char c :: nat) in n = 32 \<or> (9 \<le> n \<and> n \<le> 13))"

definition demo_trim :: "string \<Rightarrow> string" where
  "demo_trim s = rev (dropWhile demo_isWhiteSpace (rev (dropWhile demo_isWhiteSpace s)))"

fun demo_digits :: "nat \<Rightarrow> string" where
  "demo_digits n =
     (if n < 10 then [char_of (48 + n)] else demo_digits (n div 10) @ [char_of (48 + n mod 10)])"

definition demo_intToString :: "int \<Rightarrow> string" where
  "demo_intToString i = (if i < 0 then CHR ''-'' # demo_digits (nat (- i)) else demo_digits (nat i))"

fun demo_numberToString :: "js_number \<Rightarrow> string" where
  "demo_numberToString (Finite q) = demo_intToString \<lfloor>q\<rfloor>"
| "demo_numberToString NaN = ''NaN''"
| "demo_numberToString PosInfinity = ''Infinity''"
| "demo_numberToString NegInfinity = ''-Infinity''"

definition demo_basename :: "string \<Rightarrow> string" where
  "demo_basename p = rev (takeWhile (\<lambda>c. c \<noteq> CHR ''/'') (rev p))"

definition demo_extname :: "string \<Rightarrow> string" where
  "demo_extname p =
     (let b = demo_basename p; r = takeWhile (\<lambda>c. c \<noteq> CHR ''.'') (rev b)
      in if length b \<le> length r + 1 then [] else CHR ''.'' # rev r)"

definition demo_dirname :: "string \<Rightarrow> string" where
  "demo_dirname p = rev (drop 1 (dropWhile (\<lambda>c. c \<noteq> CHR ''/'') (rev p)))"

definition demo_sys :: sys where
  "demo_sys =
     \<lparr>process_env = (\<lambda>v. None),
      generateContent = (\<lambda>key model prompt n. Inl (ApiError (Finite 503) ''backend unavailable'')),
      sharp_jpeg = (\<lambda>d. Inr d),
      os_homedir = ''/home/u'',
      os_tmpdir = ''/tmp'',
      path_isAbsolute = (\<lambda>p. startsWith p ''/''),
      path_resolve = (\<lambda>p. ''/work/'' @ p),
      path_join = (\<lambda>a b. a @ ''/'' @ b),
      path_extname = demo_extname,
      path_dirname = demo_dirname,
      buffer_from_base64 = (\<lambda>d. d),
      fs_outcome = (\<lambda>h op. case op of Stat p \<Rightarrow> Inr 21 | _ \<Rightarrow> Inr 0),
      date_toISOString = (\<lambda>h. ''2026-01-02T03:04:05.678Z''),
      math_random_toString36 = (\<lambda>h. ''0.k3j2h1g9''),
      string_trim = demo_trim,
      number_toString = demo_numberToString,
      toLowerCase_typeError = JsError None ''toLowerCase is not a function''\<rparr>"

definition emptyCache :: client_cache where
  "emptyCache = \<lparr>cachedClient = None, cachedApiKey = None\<rparr>"

text \<open>The environment with an API key set.\<close>

definition demo_keyed :: sys where
  "demo_keyed = demo_sys\<lparr>process_env := (\<lambda>v. if v = ''GEMINI_API_KEY'' then Some ''k1'' else None)\<rparr>"

text \<open>A file system on which every \<open>mkdir\<close> below \<open>/blocked\<close> fails.\<close>

definition blocked_fs :: "fs_op list \<Rightarrow> fs_op \<Rightarrow> thrown + nat" where
  "blocked_fs h op =
     (case op of
        Mkdir p \<Rightarrow> if startsWith p ''/blocked'' then Inl (newError ''ENOTDIR: not a directory'') else Inr 0
      | WriteFile p b \<Rightarrow> Inr 0
      | Stat p \<Rightarrow> Inr 21)"

section \<open>The retry loop of generateImage\<close>

declare generateImage_loop.simps [simp del]

lemma loop_at_2:
  "generateImage_loop S c m p (Suc (Suc 0)) tr =
     (case attemptBody S c m p (Suc (Suc 0)) of
        Inr r \<Rightarrow> (tr @ [GenerateContent (Suc (Suc 0))], Inr r)
      | Inl e \<Rightarrow>
          (case isRetryableGeminiError S e of
             Inl x \<Rightarrow> (tr @ [GenerateContent (Suc (Suc 0))], Inl x)
           | Inr b \<Rightarrow> (tr @ [GenerateContent (Suc (Suc 0)), ToUserFacing e],
                       Inl (toUserFacingGeminiError S e))))"
  by (subst generateImage_loop.simps) (simp add: MAX_RETRIES_def split: sum.splits)

lemma loop_at_1:
  "generateImage_loop S c m p (Suc 0) tr =
     (case attemptBody S c m p (Suc 0) of
        Inr r \<Rightarrow> (tr @ [GenerateContent (Suc 0)], Inr r)
      | Inl e \<Rightarrow>
          (case isRetryableGeminiError S e of
             Inl x \<Rightarrow> (tr @ [GenerateContent (Suc 0)], Inl x)
           | Inr b \<Rightarrow>
               if b
               then generateImage_loop S c m p (Suc (Suc 0)) (tr @ [GenerateContent (Suc 0), Sleep 1000])
               else (tr @ [GenerateContent (Suc 0), ToUserFacing e],
                     Inl (toUserFacingGeminiError S e))))"
  by (subst generateImage_loop.simps)
     (simp add: MAX_RETRIES_def RETRY_BACKOFF_MS_def numeral_2_eq_2 split: sum.splits)

lemma loop_at_0:
  "generateImage_loop S c m p 0 tr =
     (case attemptBody S c m p 0 of
        Inr r \<Rightarrow> (tr @ [GenerateContent 0], Inr r)
      | Inl e \<Rightarrow>
          (case isRetryableGeminiError S e of
             Inl x \<Rightarrow> (tr @ [GenerateContent 0], Inl x)
           | Inr b \<Rightarrow>
               if b
               then generateImage_loop S c m p (Suc 0) (tr @ [GenerateContent 0, Sleep 500])
               else (tr @ [GenerateContent 0, ToUserFacing e],
                     Inl (toUserFacingGeminiError S e))))"
  by (subst generateImage_loop.simps)
     (simp add: MAX_RETRIES_def RETRY_BACKOFF_MS_def split: sum.splits)

lemma ends_now:
  assumes "attemptBody S c m p k = a"
      and "case a of
             Inr res \<Rightarrow> r = Inr res \<and> tr = schedule k
           | Inl e \<Rightarrow>
               (case isRetryableGeminiError S e of
                  Inl x \<Rightarrow> r = Inl x \<and> tr = schedule k
                | Inr b \<Rightarrow> (k < 2 \<longrightarrow> \<not> b) \<and> r = Inl (toUserFacingGeminiError S e) \<and>
                           tr = schedule k @ [ToUserFacing e])"
  shows "endsAt S c m p k tr r"
  using assms by (auto simp: endsAt_def split: sum.splits)

lemma loop_shape:
  assumes "generateImage_loop S c m p 0 [] = (tr, r)"
  shows "\<exists>k\<le>2. (\<forall>j<k. \<exists>e. attemptBody S c m p j = Inl e \<and>
                      isRetryableGeminiError S e = Inr True) \<and>
               endsAt S c m p k tr r"
proof -
  let ?retried = "\<lambda>j. \<exists>e. attemptBody S c m p j = Inl e \<and> isRetryableGeminiError S e = Inr True"
  show ?thesis
  proof (cases "?retried 0")
    case False
    have "endsAt S c m p 0 tr r"
    proof (rule ends_now[OF refl])
      show "case attemptBody S c m p 0 of
             Inr res \<Rightarrow> r = Inr res \<and> tr = schedule 0
           | Inl e \<Rightarrow>
               (case isRetryableGeminiError S e of
                  Inl x \<Rightarrow> r = Inl x \<and> tr = schedule 0
                | Inr b \<Rightarrow> ((0::nat) < 2 \<longrightarrow> \<not> b) \<and> r = Inl (toUserFacingGeminiError S e) \<and>
                           tr = schedule 0 @ [ToUserFacing e])"
        using assms False by (auto simp: loop_at_0 split: sum.splits if_splits)
    qed
    then show ?thesis
      by (intro exI[of _ 0]) simp
  next
    case r0: True
    with assms have at1:
      "generateImage_loop S c m p (Suc 0) [GenerateContent 0, Sleep 500] = (tr, r)"
      by (auto simp: loop_at_0)
    show ?thesis
    proof (cases "?retried (Suc 0)")
      case False
      have "endsAt S c m p (Suc 0) tr r"
      proof (rule ends_now[OF refl])
        show "case attemptBody S c m p (Suc 0) of
               Inr res \<Rightarrow> r = Inr res \<and> tr = schedule (Suc 0)
             | Inl e \<Rightarrow>
                 (case isRetryableGeminiError S e of
                    Inl x \<Rightarrow> r = Inl x \<and> tr = schedule (Suc 0)
                  | Inr b \<Rightarrow> (Suc 0 < 2 \<longrightarrow> \<not> b) \<and> r = Inl (toUserFacingGeminiError S e) \<and>
                             tr = schedule (Suc 0) @ [ToUserFacing e])"
          using at1 False by (auto simp: loop_at_1 split: sum.splits if_splits)
      qed
      with r0 show ?thesis
        by (intro exI[of _ "Suc 0"]) simp
    next
      case r1: True
      with at1 have at2:
        "generateImage_loop S c m p (Suc (Suc 0))
           [GenerateContent 0, Sleep 500, GenerateContent (Suc 0), Sleep 1000] = (tr, r)"
        by (auto simp: loop_at_1)
      have "endsAt S c m p (Suc (Suc 0)) tr r"
      proof (rule ends_now[OF refl])
        show "case attemptBody S c m p (Suc (Suc 0)) of
               Inr res \<Rightarrow> r = Inr res \<and> tr = schedule (Suc (Suc 0))
             | Inl e \<Rightarrow>
                 (case isRetryableGeminiError S e of
                    Inl x \<Rightarrow> r = Inl x \<and> tr = schedule (Suc (Suc 0))
                  | Inr b \<Rightarrow> (Suc (Suc 0) < 2 \<longrightarrow> \<not> b) \<and>
                             r = Inl (toUserFacingGeminiError S e) \<and>
                             tr = schedule (Suc (Suc 0)) @ [ToUserFacing e])"
          using at2 by (auto simp: loop_at_2 split: sum.splits)
      qed
      moreover have "\<forall>j<Suc (Suc 0). ?retried j"
        using r0 r1 by (auto simp: less_Suc_eq)
      ultimately show ?thesis
        by (intro exI[of _ "Suc (Suc 0)"]) simp
    qed
  qed
qed

lemma attemptsMade_schedule: "attemptsMade (schedule k) = Suc k"
  by (induction k) (simp_all add: attemptsMade_def)


lemma GenerateContent_in_schedule: "GenerateContent j \<in> set (schedule k) \<longleftrightarrow> j \<le> k"
  by (induction k) auto

lemma Sleep_in_schedule: "Sleep d \<in> set (schedule k) \<longleftrightarrow> (\<exists>j<k. d = 500 * 2 ^ j)"
  by (induction k) (auto simp: less_Suc_eq)

lemma ThrowAfterLoop_not_in_schedule: "ThrowAfterLoop \<notin> set (schedule k)"
  by (induction k) auto

lemma last_schedule: "last (schedule k) = GenerateContent k"
  by (cases k) simp_all

lemma endsAt_events:
  assumes "endsAt S c m p k tr r"
  shows "tr = schedule k \<or> (\<exists>e. tr = schedule k @ [ToUserFacing e])"
  using assms by (auto simp: endsAt_def)

lemma isRetryable_transient:
  assumes "isRetryableGeminiError S e = Inr True"
  shows "(\<exists>s. status_of e = Some s \<and> s \<in> {408, 429, 500, 502, 503, 504}) \<or>
     str_includes (messageLower e) ''timeout'' \<or>
     str_includes (messageLower e) ''timed out'' \<or>
     str_includes (messageLower e) ''etimedout'' \<or>
     str_includes (messageLower e) ''econnreset'' \<or>
     str_includes (messageLower e) ''temporar''"
proof (cases "hasRetryableStatus e")
  case True
  then show ?thesis
    by (auto simp: hasRetryableStatus_def RETRYABLE_STATUS_CODES_def split: option.splits)
next
  case False
  with assms have "messageTests (messageLower e)"
    by (cases e) (auto split: if_splits message_prop.splits)
  then show ?thesis
    by (simp add: messageTests_def)
qed

subsection \<open>Substrings\<close>

lemma startsWith_append: "startsWith (sub @ s) sub"
  by (simp add: startsWith_def)

lemma str_includes_startsWith: "startsWith s sub \<Longrightarrow> str_includes s sub"
  by (cases s) (simp_all add: startsWith_def)

lemma str_includes_self_prefix: "str_includes (sub @ s) sub"
  by (rule str_includes_startsWith) (rule startsWith_append)

lemma str_includes_append: "str_includes (p @ sub @ s) sub"
proof (induction p)
  case Nil
  show ?case using str_includes_self_prefix by simp
next
  case (Cons a p)
  then show ?case by simp
qed

lemma generateImage_no_client:
  "getClient S cache = Inl e \<Longrightarrow> generateImage S cache prompt = (cache, [], Inl e)"
  by (simp add: generateImage_def)

lemma generateImage_client:
  "getClient S cache = Inr (c, client) \<Longrightarrow>
   generateImage S cache prompt =
     (c, fst (generateImage_loop S client (getModelName S) prompt 0 []),
         snd (generateImage_loop S client (getModelName S) prompt 0 []))"
  by (simp add: generateImage_def split: prod.splits)


lemma loop_attempts:
  assumes "generateImage_loop S c m p 0 [] = (tr, r)"
  shows "attemptsMade tr \<le> 3"
proof -
  from loop_shape[OF assms] obtain k where k: "k \<le> 2" and ends: "endsAt S c m p k tr r"
    by blast
  from endsAt_events[OF ends] have "attemptsMade tr = attemptsMade (schedule k)"
    by (auto simp: attemptsMade_def)
  with k show ?thesis
    by (simp add: attemptsMade_schedule)
qed

lemma loop_retries_transient:
  assumes "generateImage_loop S c m p 0 [] = (tr, r)"
  shows "\<exists>k\<le>2. (tr = schedule k \<or> (\<exists>e. tr = schedule k @ [ToUserFacing e])) \<and>
               (\<forall>d. Sleep d \<in> set tr \<longleftrightarrow> (\<exists>j<k. d = 500 * 2 ^ j)) \<and>
               (\<forall>d. last tr \<noteq> Sleep d) \<and>
               (\<forall>j<k. \<exists>e. attemptBody S c m p j = Inl e \<and>
                  ((\<exists>s. status_of e = Some s \<and> s \<in> {408, 429, 500, 502, 503, 504}) \<or>
                   str_includes (messageLower e) ''timeout'' \<or>
                   str_includes (messageLower e) ''timed out'' \<or>
                   str_includes (messageLower e) ''etimedout'' \<or>
                   str_includes (messageLower e) ''econnreset'' \<or>
                   str_includes (messageLower e) ''temporar''))"
proof -
  from loop_shape[OF assms] obtain k where k: "k \<le> 2"
    and before: "\<forall>j<k. \<exists>e. attemptBody S c m p j = Inl e \<and> isRetryableGeminiError S e = Inr True"
    and ends: "endsAt S c m p k tr r"
    by blast
  note shape = endsAt_events[OF ends]
  have "\<exists>e. attemptBody S c m p j = Inl e \<and>
                  ((\<exists>s. status_of e = Some s \<and> s \<in> {408, 429, 500, 502, 503, 504}) \<or>
                   str_includes (messageLower e) ''timeout'' \<or>
                   str_includes (messageLower e) ''timed out'' \<or>
                   str_includes (messageLower e) ''etimedout'' \<or>
                   str_includes (messageLower e) ''econnreset'' \<or>
                   str_includes (messageLower e) ''temporar'')" if "j < k" for j
  proof -
    from before that obtain e
      where e: "attemptBody S c m p j = Inl e" "isRetryableGeminiError S e = Inr True"
      by blast
    from isRetryable_transient[OF e(2)] e(1) show ?thesis
      by (intro exI[of _ e] conjI)
  qed
  moreover from shape have "\<forall>d. Sleep d \<in> set tr \<longleftrightarrow> (\<exists>j<k. d = 500 * 2 ^ j)"
    using Sleep_in_schedule[of _ k] by auto
  moreover from shape have "\<forall>d. last tr \<noteq> Sleep d"
    using last_schedule[of k] by auto
  ultimately show ?thesis
    using k shape by (intro exI[of _ k]) simp
qed

text \<open>
  Claim C5. \<open>generateImage\<close> calls the backend at most 3 times. When the credential
  is resolved, the events of a run are the schedule of some last attempt \<open>k \<le> 2\<close>
  (attempt 0, then before each further attempt a sleep of 500 after attempt 0 and of 1000
  after attempt 1), followed at most by the translation of the last failure: the sleeps
  of the run are those of 500 times 2 to the \<open>j\<close> for the attempts \<open>j < k\<close>, and the last
  event is never a sleep. Every attempt \<open>j < k\<close>, the ones that were retried, failed
  with a failure that is transient: its status is one of 408, 429, 500, 502, 503, 504 or
  its lower-cased message contains one of the terms the classifier looks for.
\<close>

theorem generateImage_retry_policy:
  assumes run: "generateImage S cache prompt = (cache', tr, r)"
  shows "attemptsMade tr \<le> 3 \<and>
         (\<forall>c client. getClient S cache = Inr (c, client) \<longrightarrow>
            (\<exists>k\<le>2. (tr = schedule k \<or> (\<exists>e. tr = schedule k @ [ToUserFacing e])) \<and>
               (\<forall>d. Sleep d \<in> set tr \<longleftrightarrow> (\<exists>j<k. d = 500 * 2 ^ j)) \<and>
               (\<forall>d. last tr \<noteq> Sleep d) \<and>
               (\<forall>j<k. \<exists>e. attemptBody S client (getModelName S) prompt j = Inl e \<and>
                  ((\<exists>s. status_of e = Some s \<and> s \<in> {408, 429, 500, 502, 503, 504}) \<or>
                   str_includes (messageLower e) ''timeout'' \<or>
                   str_includes (messageLower e) ''timed out'' \<or>
                   str_includes (messageLower e) ''etimedout'' \<or>
                   str_includes (messageLower e) ''econnreset'' \<or>
                   str_includes (messageLower e) ''temporar''))))"
proof (intro conjI allI impI)
  show "attemptsMade tr \<le> 3"
  proof (cases "getClient S cache")
    case (Inl e)
    with run have "tr = []"
      by (simp add: generateImage_no_client)
    then show ?thesis
      by (simp add: attemptsMade_def)
  next
    case (Inr a)
    obtain c client where "a = (c, client)"
      by (cases a)
    with run Inr have "generateImage_loop S client (getModelName S) prompt 0 [] = (tr, r)"
      by (simp add: generateImage_client)
    then show ?thesis
      by (rule loop_attempts)
  qed
next
  fix c client
  assume "getClient S cache = Inr (c, client)"
  with run have "generateImage_loop S client (getModelName S) prompt 0 [] = (tr, r)"
    by (simp add: generateImage_client)
  then show "\<exists>k\<le>2. (tr = schedule k \<or> (\<exists>e. tr = schedule k @ [ToUserFacing e])) \<and>
               (\<forall>d. Sleep d \<in> set tr \<longleftrightarrow> (\<exists>j<k. d = 500 * 2 ^ j)) \<and>
               (\<forall>d. last tr \<noteq> Sleep d) \<and>
               (\<forall>j<k. \<exists>e. attemptBody S client (getModelName S) prompt j = Inl e \<and>
                  ((\<exists>s. status_of e = Some s \<and> s \<in> {408, 429, 500, 502, 503, 504}) \<or>
                   str_includes (messageLower e) ''timeout'' \<or>
                   str_includes (messageLower e) ''timed out'' \<or>
                   str_includes (messageLower e) ''etimedout'' \<or>
                   str_includes (messageLower e) ''econnreset'' \<or>
                   str_includes (messageLower e) ''temporar''))"
    by (rule loop_retries_transient)
qed


theorem generateImage_retry_policy_witness:
  "generateImage demo_keyed emptyCache ''draw a cat'' =
     (\<lparr>cachedClient = Some ''k1'', cachedApiKey = Some ''k1''\<rparr>,
      [GenerateContent 0, Sleep 500, GenerateContent 1, Sleep 1000, GenerateContent 2,
       ToUserFacing (ApiError (Finite 503) ''backend unavailable'')],
      Inl (newError ''Gemini API is temporarily unavailable. Please retry shortly.'')) \<and>
   getClient demo_keyed emptyCache =
     Inr (\<lparr>cachedClient = Some ''k1'', cachedApiKey = Some ''k1''\<rparr>, ''k1'') \<and>
   attemptsMade [GenerateContent 0, Sleep 500, GenerateContent 1, Sleep 1000, GenerateContent 2,
       ToUserFacing (ApiError (Finite 503) ''backend unavailable'')] \<le> 3 \<and>
   (\<exists>k\<le>2. ([GenerateContent 0, Sleep 500, GenerateContent 1, Sleep 1000, GenerateContent 2,
              ToUserFacing (ApiError (Finite 503) ''backend unavailable'')] = schedule k \<or>
            (\<exists>e. [GenerateContent 0, Sleep 500, GenerateContent 1, Sleep 1000, GenerateContent 2,
              ToUserFacing (ApiError (Finite 503) ''backend unavailable'')] = schedule k @ [ToUserFacing e])) \<and>
      (\<forall>d. Sleep d \<in> set [GenerateContent 0, Sleep 500, GenerateContent 1, Sleep 1000, GenerateContent 2,
              ToUserFacing (ApiError (Finite 503) ''backend unavailable'')] \<longleftrightarrow>
           (\<exists>j<k. d = 500 * 2 ^ j)) \<and>
      (\<forall>d. last [GenerateContent 0, Sleep 500, GenerateContent 1, Sleep 1000, GenerateContent 2,
              ToUserFacing (ApiError (Finite 503) ''backend unavailable'')] \<noteq> Sleep d) \<and>
      (\<forall>j<k. \<exists>e. attemptBody demo_keyed ''k1'' (getModelName demo_keyed) ''draw a cat'' j = Inl e \<and>
         ((\<exists>s. status_of e = Some s \<and> s \<in> {408, 429, 500, 502, 503, 504}) \<or>
          str_includes (messageLower e) ''timeout'' \<or>
          str_includes (messageLower e) ''timed out'' \<or>
          str_includes (messageLower e) ''etimedout'' \<or>
          str_includes (messageLower e) ''econnreset'' \<or>
          str_includes (messageLower e) ''temporar'')))"
proof -
  have run: "generateImage demo_keyed emptyCache ''draw a cat'' =
     (\<lparr>cachedClient = Some ''k1'', cachedApiKey = Some ''k1''\<rparr>,
      [GenerateContent 0, Sleep 500, GenerateContent 1, Sleep 1000, GenerateContent 2,
       ToUserFacing (ApiError (Finite 503) ''backend unavailable'')],
      Inl (newError ''Gemini API is temporarily unavailable. Please retry shortly.''))"
    by code_simp
  have client: "getClient demo_keyed emptyCache =
     Inr (\<lparr>cachedClient = Some ''k1'', cachedApiKey = Some ''k1''\<rparr>, ''k1'')"
    by code_simp
  note policy = generateImage_retry_policy[OF run]
  note made = conjunct1[OF policy]
  note shape = conjunct2[OF policy, rule_format, OF client]
  from run client made shape show ?thesis
    by (intro conjI)
qed


declare str_includes.simps [simp del]

subsection \<open>Translation of the terminal failure\<close>







subsection \<open>The throw after the loop, and the throw of the classifier\<close>

lemma loop_no_throw_after_loop:
  assumes "attempt \<le> MAX_RETRIES" and "ThrowAfterLoop \<notin> set tr"
  shows "ThrowAfterLoop \<notin> set (fst (generateImage_loop S c m p attempt tr))"
  using assms
proof (induction S c m p attempt tr rule: generateImage_loop.induct)
  case (1 S client model prompt attempt tr)
  show ?case
  proof (cases "attemptBody S client model prompt attempt")
    case (Inr res)
    with "1.prems" show ?thesis
      by (simp add: generateImage_loop.simps[of S client model prompt attempt])
  next
    case (Inl e)
    show ?thesis
    proof (cases "isRetryableGeminiError S e")
      case thrown: (Inl x)
      with Inl "1.prems" show ?thesis
        by (simp add: generateImage_loop.simps[of S client model prompt attempt])
    next
      case (Inr b)
      show ?thesis
      proof (cases "b \<and> attempt < MAX_RETRIES")
        case True
        then have next_attempt: "attempt + 1 \<le> MAX_RETRIES"
          by simp
        have extended: "ThrowAfterLoop \<notin>
            set (tr @ [GenerateContent attempt, Sleep (RETRY_BACKOFF_MS * 2 ^ attempt)])"
          using "1.prems"(2) by simp
        from "1.IH"[OF "1.prems"(1) Inl Inr True next_attempt extended] Inl Inr True "1.prems"(1)
        show ?thesis
          by (simp add: generateImage_loop.simps[of S client model prompt attempt])
      next
        case False
        with Inl Inr "1.prems" show ?thesis
          by (auto simp: generateImage_loop.simps[of S client model prompt attempt])
      qed
    qed
  qed
qed

lemma generateImage_no_throw_after_loop:
  "ThrowAfterLoop \<notin> set (fst (snd (generateImage S cache prompt)))"
proof (cases "getClient S cache")
  case (Inl e)
  then show ?thesis
    by (simp add: generateImage_no_client)
next
  case (Inr a)
  obtain c client where "a = (c, client)"
    by (cases a)
  with Inr show ?thesis
    using loop_no_throw_after_loop[of 0 "[]" S client "getModelName S" prompt]
    by (simp add: generateImage_client)
qed

text \<open>
  Claim C10. The \<open>throw\<close> after the loop is indeed never reached
  (\<open>generateImage_no_throw_after_loop\<close> above). But an iteration can also end in a
  fourth way, which the claim excludes: when the backend throws a value that is not an
  \<open>Error\<close> and whose message is not a string (here an object with the message 42), the
  classifier throws inside the \<open>catch\<close> block, and \<open>generateImage\<close> fails at attempt 0
  with that \<open>TypeError\<close>, which is no result, no translated error (the translation
  would have been the unknown-error message) and no retry.
\<close>

theorem classifier_throw_leaves_untranslated:
  "generateImage
     (demo_keyed\<lparr>generateContent :=
        (\<lambda>key model prompt n. Inl (NonError None OtherMessage ''[object Object]''))\<rparr>)
     emptyCache ''draw a cat'' =
     (\<lparr>cachedClient = Some ''k1'', cachedApiKey = Some ''k1''\<rparr>,
      [GenerateContent 0],
      Inl (toLowerCase_typeError demo_sys)) \<and>
   toLowerCase_typeError demo_sys \<noteq>
     toUserFacingGeminiError demo_keyed (NonError None OtherMessage ''[object Object]'') \<and>
   toUserFacingGeminiError demo_keyed (NonError None OtherMessage ''[object Object]'') =
     newError ''Failed to generate image due to an unknown error.''"
  by code_simp

section \<open>The credential\<close>


lemma errorResponse_missingKey:
  "errorResponse (newError missingKeyMessage) =
     \<lparr>content_text = ''Error generating image: '' @ missingKeyMessage,
      content_image = None, structuredContent = None, isError = Some True\<rparr>"
  by (simp add: errorResponse_def)



lemma generateImage_missing_key:
  assumes "getConfiguredApiKey S = Inl (newError missingKeyMessage)"
  shows "generateImage S cache prompt = (cache, [], Inl (newError missingKeyMessage))"
  using assms by (simp add: generateImage_def getClient_def)





text \<open>
  Claim C9. When \<open>GEMINI_API_KEY\<close> is set to the empty string, \<open>generateImage\<close>
  fails with the missing-credential error whatever \<open>GOOGLE_API_KEY\<close> holds: the
  secondary variable is read only when the primary is absent.
\<close>

theorem empty_primary_key_is_missing_credential:
  assumes "process_env S ''GEMINI_API_KEY'' = Some []"
  shows "getConfiguredApiKey S = Inl (newError missingKeyMessage) \<and>
         generateImage S cache prompt = (cache, [], Inl (newError missingKeyMessage))"
proof -
  from assms have "getConfiguredApiKey S = Inl (newError missingKeyMessage)"
    by (simp add: getConfiguredApiKey_def)
  then show ?thesis
    using generateImage_missing_key by blast
qed

theorem empty_primary_key_is_missing_credential_witness:
  "process_env (demo_sys\<lparr>process_env :=
       (\<lambda>v. if v = ''GEMINI_API_KEY'' then Some [] else
             if v = ''GOOGLE_API_KEY'' then Some ''k2'' else None)\<rparr>) ''GEMINI_API_KEY'' = Some [] \<and>
   process_env (demo_sys\<lparr>process_env :=
       (\<lambda>v. if v = ''GEMINI_API_KEY'' then Some [] else
             if v = ''GOOGLE_API_KEY'' then Some ''k2'' else None)\<rparr>) ''GOOGLE_API_KEY'' = Some ''k2'' \<and>
   generateImage (demo_sys\<lparr>process_env :=
       (\<lambda>v. if v = ''GEMINI_API_KEY'' then Some [] else
             if v = ''GOOGLE_API_KEY'' then Some ''k2'' else None)\<rparr>) emptyCache ''draw a cat'' =
     (emptyCache, [], Inl (newError missingKeyMessage))"
proof -
  have primary: "process_env (demo_sys\<lparr>process_env :=
       (\<lambda>v. if v = ''GEMINI_API_KEY'' then Some [] else
             if v = ''GOOGLE_API_KEY'' then Some ''k2'' else None)\<rparr>) ''GEMINI_API_KEY'' = Some []"
    by simp
  have secondary: "process_env (demo_sys\<lparr>process_env :=
       (\<lambda>v. if v = ''GEMINI_API_KEY'' then Some [] else
             if v = ''GOOGLE_API_KEY'' then Some ''k2'' else None)\<rparr>) ''GOOGLE_API_KEY'' = Some ''k2''"
    by simp
  from primary secondary
    empty_primary_key_is_missing_credential[OF primary, of emptyCache "''draw a cat''", THEN conjunct2]
  show ?thesis
    by (intro conjI)
qed

section \<open>The scan of the parts\<close>

lemma scan_image_last:
  "fst (foldl scanPart (i, t) ps) =
     (if filter carriesImage ps = [] then i else inlineDataOf (last (filter carriesImage ps)))"
proof (induction ps arbitrary: i t)
  case Nil
  show ?case by simp
next
  case (Cons p ps)
  show ?case
  proof (cases "carriesImage p")
    case True
    then have "scanPart (i, t) p = (inlineDataOf p, t)"
      by (simp add: carriesImage_def)
    with True Cons.IH[of "inlineDataOf p" t] show ?thesis
      by simp
  next
    case False
    then have "\<exists>t'. scanPart (i, t) p = (i, t')"
      by (simp add: carriesImage_def)
    then obtain t' where "scanPart (i, t) p = (i, t')" ..
    with False Cons.IH[of i t'] show ?thesis
      by simp
  qed
qed

lemma scanParts_image_last:
  assumes "filter carriesImage ps \<noteq> []"
  shows "\<exists>d. inlineDataOf (last (filter carriesImage ps)) = Some d \<and> d \<noteq> [] \<and>
             scanParts ps = (Some d, snd (scanParts ps))"
proof -
  from assms have "last (filter carriesImage ps) \<in> set (filter carriesImage ps)"
    by (rule last_in_set)
  then have "carriesImage (last (filter carriesImage ps))"
    by simp
  then obtain d where d: "inlineDataOf (last (filter carriesImage ps)) = Some d" "d \<noteq> []"
    by (cases "inlineDataOf (last (filter carriesImage ps))") (simp_all add: carriesImage_def)
  from scan_image_last[of None None ps] assms d(1) have "fst (scanParts ps) = Some d"
    by (simp add: scanParts_def)
  then have "scanParts ps = (Some d, snd (scanParts ps))"
    by (cases "scanParts ps") simp
  with d show ?thesis
    by blast
qed

text \<open>
  Claim C1, as amended. When the parts of the first candidate contain at least one part
  that carries inline image bytes, the bytes that the attempt re-encodes and returns are
  those of the last such part in the order of the parts.
\<close>

theorem last_image_fragment_wins:
  assumes "generateContent S client model prompt attempt = Inr resp"
      and "firstCandidateParts resp = Some ps"
      and "filter carriesImage ps \<noteq> []"
  shows "\<exists>d. inlineDataOf (last (filter carriesImage ps)) = Some d \<and>
             attemptBody S client model prompt attempt =
               (case sharp_jpeg S d of
                  Inl e \<Rightarrow> Inl e
                | Inr jpg \<Rightarrow>
                    Inr \<lparr>result_data = jpg, result_mimeType = ''image/jpeg'', result_model = model,
                         result_text = (if truthy (snd (scanParts ps)) then snd (scanParts ps)
                                        else None)\<rparr>)"
proof -
  from scanParts_image_last[OF assms(3)] obtain d
    where d: "inlineDataOf (last (filter carriesImage ps)) = Some d" "d \<noteq> []"
      "scanParts ps = (Some d, snd (scanParts ps))"
    by blast
  define collected where "collected = snd (scanParts ps)"
  from d(3) have scan: "scanParts ps = (Some d, collected)"
    by (simp add: collected_def)
  from assms(3) obtain p ps' where ps: "ps = p # ps'"
    by (cases ps) auto
  from assms(2) ps have parts: "firstCandidateParts resp = Some (p # ps')"
    by simp
  from scan ps have scan': "scanParts (p # ps') = (Some d, collected)"
    by simp
  have "attemptBody S client model prompt attempt =
          (case sharp_jpeg S d of
             Inl e \<Rightarrow> Inl e
           | Inr jpg \<Rightarrow>
               Inr \<lparr>result_data = jpg, result_mimeType = ''image/jpeg'', result_model = model,
                    result_text = (if truthy collected then collected else None)\<rparr>)"
    using d(2) by (simp add: attemptBody_def assms(1) parts scan')
  with d(1) show ?thesis
    unfolding collected_def by blast
qed


theorem last_image_fragment_wins_witness:
  "generateContent
     (demo_keyed\<lparr>generateContent := (\<lambda>key model prompt n.
        Inr (responseOfParts [imagePart ''QUFB'',
                              \<lparr>part_inlineData = None, part_text = Some ''two cats''\<rparr>,
                              imagePart ''QkJC'']))\<rparr>)
     ''k1'' DEFAULT_IMAGE_MODEL ''draw a cat'' 0 =
     Inr (responseOfParts [imagePart ''QUFB'',
                           \<lparr>part_inlineData = None, part_text = Some ''two cats''\<rparr>,
                           imagePart ''QkJC'']) \<and>
   firstCandidateParts (responseOfParts [imagePart ''QUFB'',
                           \<lparr>part_inlineData = None, part_text = Some ''two cats''\<rparr>,
                           imagePart ''QkJC'']) =
     Some [imagePart ''QUFB'', \<lparr>part_inlineData = None, part_text = Some ''two cats''\<rparr>,
           imagePart ''QkJC''] \<and>
   filter carriesImage [imagePart ''QUFB'', \<lparr>part_inlineData = None, part_text = Some ''two cats''\<rparr>,
           imagePart ''QkJC''] = [imagePart ''QUFB'', imagePart ''QkJC''] \<and>
   attemptBody
     (demo_keyed\<lparr>generateContent := (\<lambda>key model prompt n.
        Inr (responseOfParts [imagePart ''QUFB'',
                              \<lparr>part_inlineData = None, part_text = Some ''two cats''\<rparr>,
                              imagePart ''QkJC'']))\<rparr>)
     ''k1'' DEFAULT_IMAGE_MODEL ''draw a cat'' 0 =
     Inr \<lparr>result_data = ''QkJC'', result_mimeType = ''image/jpeg'',
          result_model = DEFAULT_IMAGE_MODEL, result_text = Some ''two cats''\<rparr>"
  (is "?call \<and> ?parts \<and> ?images \<and> ?result")
proof -
  have call: ?call
    by simp
  have parts: ?parts
    by (simp add: firstCandidateParts_def responseOfParts_def)
  have images: ?images
    by (simp add: carriesImage_def inlineDataOf_def imagePart_def)
  then have nonempty: "filter carriesImage [imagePart ''QUFB'',
      \<lparr>part_inlineData = None, part_text = Some ''two cats''\<rparr>, imagePart ''QkJC''] \<noteq> []"
    by simp
  have narrative: "snd (scanParts [imagePart ''QUFB'',
      \<lparr>part_inlineData = None, part_text = Some ''two cats''\<rparr>, imagePart ''QkJC'']) =
      Some ''two cats''"
    by (simp add: scanParts_def inlineDataOf_def imagePart_def)
  from last_image_fragment_wins[OF call parts nonempty] obtain d
    where d: "inlineDataOf (last (filter carriesImage [imagePart ''QUFB'',
        \<lparr>part_inlineData = None, part_text = Some ''two cats''\<rparr>, imagePart ''QkJC''])) = Some d"
    and body: "attemptBody
     (demo_keyed\<lparr>generateContent := (\<lambda>key model prompt n.
        Inr (responseOfParts [imagePart ''QUFB'',
                              \<lparr>part_inlineData = None, part_text = Some ''two cats''\<rparr>,
                              imagePart ''QkJC'']))\<rparr>)
     ''k1'' DEFAULT_IMAGE_MODEL ''draw a cat'' 0 =
       (case sharp_jpeg
          (demo_keyed\<lparr>generateContent := (\<lambda>key model prompt n.
             Inr (responseOfParts [imagePart ''QUFB'',
                              \<lparr>part_inlineData = None, part_text = Some ''two cats''\<rparr>,
                              imagePart ''QkJC'']))\<rparr>) d of
          Inl e \<Rightarrow> Inl e
        | Inr jpg \<Rightarrow>
            Inr \<lparr>result_data = jpg, result_mimeType = ''image/jpeg'',
                 result_model = DEFAULT_IMAGE_MODEL,
                 result_text =
                   (if truthy (snd (scanParts [imagePart ''QUFB'',
                        \<lparr>part_inlineData = None, part_text = Some ''two cats''\<rparr>,
                        imagePart ''QkJC'']))
                    then snd (scanParts [imagePart ''QUFB'',
                        \<lparr>part_inlineData = None, part_text = Some ''two cats''\<rparr>,
                        imagePart ''QkJC''])
                    else None)\<rparr>)"
    by blast
  from d have "d = ''QkJC''"
    unfolding images by (simp add: inlineDataOf_def imagePart_def)
  with body have ?result
    unfolding narrative by (simp add: demo_keyed_def demo_sys_def)
  with call parts images show ?thesis
    by (intro conjI)
qed

text \<open>
  Claim C1 as stated fails: with two image parts, \<open>QUFB\<close> then \<open>QkJC\<close>, the scan
  ends with the second, and \<open>generateImage\<close> returns the second.
\<close>

theorem first_image_fragment_does_not_win:
  "fst (scanParts [imagePart ''QUFB'', imagePart ''QkJC'']) = Some ''QkJC'' \<and>
   fst (scanParts [imagePart ''QUFB'', imagePart ''QkJC'']) \<noteq> inlineDataOf (imagePart ''QUFB'') \<and>
   snd (snd (generateImage
       (demo_keyed\<lparr>generateContent := (\<lambda>key model prompt n.
          Inr (responseOfParts [imagePart ''QUFB'', imagePart ''QkJC'']))\<rparr>)
       emptyCache ''draw a cat'')) =
     Inr \<lparr>result_data = ''QkJC'', result_mimeType = ''image/jpeg'',
          result_model = ''gemini-3-pro-image-preview'', result_text = None\<rparr>"
  by code_simp

section \<open>The resolution of the output path\<close>

lemma buildGeneratedFileName_pattern:
  "\<exists>ts rid. buildGeneratedFileName S h = ''generated-'' @ ts @ ''-'' @ rid @ ''.jpg'' \<and>
            CHR '':'' \<notin> set ts \<and> CHR ''.'' \<notin> set ts \<and> length rid \<le> 6"
proof -
  let ?ts = "map (\<lambda>c. if c = CHR '':'' \<or> c = CHR ''.'' then CHR ''-'' else c) (date_toISOString S h)"
  let ?rid = "take 6 (drop 2 (math_random_toString36 S h))"
  have "buildGeneratedFileName S h = ''generated-'' @ ?ts @ ''-'' @ ?rid @ ''.jpg''"
    by (simp add: buildGeneratedFileName_def)
  moreover have "CHR '':'' \<notin> set ?ts" "CHR ''.'' \<notin> set ?ts"
    by auto
  moreover have "length ?rid \<le> 6"
    by simp
  ultimately show ?thesis
    by blast
qed

lemma resolveTarget_directory:
  assumes "path_extname S target = []"
  shows "resolveTarget S h target =
           (h @ [Mkdir target],
            case fs_outcome S h (Mkdir target) of
              Inl e \<Rightarrow> Inl e
            | Inr u \<Rightarrow> Inr (path_join S target (buildGeneratedFileName S (h @ [Mkdir target]))))"
  using assms by (simp add: resolveTarget_def split: sum.splits)

lemma resolveTarget_jpeg:
  assumes "toLowerCase (path_extname S target) \<in> {''.jpg'', ''.jpeg''}"
  shows "resolveTarget S h target =
           (h @ [Mkdir (path_dirname S target)],
            case fs_outcome S h (Mkdir (path_dirname S target)) of
              Inl e \<Rightarrow> Inl e
            | Inr u \<Rightarrow> Inr target)"
proof -
  from assms have "path_extname S target \<noteq> []"
    by (auto simp: toLowerCase_def)
  with assms show ?thesis
    by (simp add: resolveTarget_def JPEG_EXTENSIONS_def Let_def split: sum.splits)
qed

lemma resolveTarget_other:
  assumes "path_extname S target \<noteq> []"
      and "toLowerCase (path_extname S target) \<notin> {''.jpg'', ''.jpeg''}"
  shows "resolveTarget S h target =
           (h, Inl (newError (invalidExtensionMessage (path_extname S target))))"
  using assms by (simp add: resolveTarget_def JPEG_EXTENSIONS_def Let_def)

text \<open>
  Claim C6. For an effective target of the variant with fallback directories, and for an
  absolute target of the variant that requires one: when the target has no extension,
  \<open>resolveOutputFilePath\<close> asks for the target directory to be created recursively and
  returns the target joined with a generated file name, which has the form
  \<open>generated-<timestamp>-<random-suffix>.jpg\<close> (a timestamp without \<open>:\<close> or \<open>.\<close>, a
  suffix of at most six characters); when the extension lower-cases to \<open>.jpg\<close> or
  \<open>.jpeg\<close> it asks for the parent directory to be created and returns the target
  unchanged; for any other extension it throws the invalid-extension error and performs
  no file operation. A failure of the directory creation is what it throws.
\<close>

theorem resolveOutputFilePath_by_extension:
  "(effectiveTarget S savePath defaultDir = Some target \<longrightarrow>
      (path_extname S target = [] \<longrightarrow>
         resolveOutputFilePath S h savePath defaultDir =
           (h @ [Mkdir target],
            case fs_outcome S h (Mkdir target) of
              Inl e \<Rightarrow> Inl e
            | Inr u \<Rightarrow> Inr (path_join S target (buildGeneratedFileName S (h @ [Mkdir target]))))) \<and>
      (toLowerCase (path_extname S target) \<in> {''.jpg'', ''.jpeg''} \<longrightarrow>
         resolveOutputFilePath S h savePath defaultDir =
           (h @ [Mkdir (path_dirname S target)],
            case fs_outcome S h (Mkdir (path_dirname S target)) of
              Inl e \<Rightarrow> Inl e
            | Inr u \<Rightarrow> Inr target)) \<and>
      (path_extname S target \<noteq> [] \<and>
       toLowerCase (path_extname S target) \<notin> {''.jpg'', ''.jpeg''} \<longrightarrow>
         resolveOutputFilePath S h savePath defaultDir =
           (h, Inl (newError (invalidExtensionMessage (path_extname S target)))))) \<and>
   (path_isAbsolute S target \<longrightarrow>
      (path_extname S target = [] \<longrightarrow>
         resolveOutputFilePath_strict S h target =
           (h @ [Mkdir target],
            case fs_outcome S h (Mkdir target) of
              Inl e \<Rightarrow> Inl e
            | Inr u \<Rightarrow> Inr (path_join S target (buildGeneratedFileName S (h @ [Mkdir target]))))) \<and>
      (toLowerCase (path_extname S target) \<in> {''.jpg'', ''.jpeg''} \<longrightarrow>
         resolveOutputFilePath_strict S h target =
           (h @ [Mkdir (path_dirname S target)],
            case fs_outcome S h (Mkdir (path_dirname S target)) of
              Inl e \<Rightarrow> Inl e
            | Inr u \<Rightarrow> Inr target)) \<and>
      (path_extname S target \<noteq> [] \<and>
       toLowerCase (path_extname S target) \<notin> {''.jpg'', ''.jpeg''} \<longrightarrow>
         resolveOutputFilePath_strict S h target =
           (h, Inl (newError (invalidExtensionMessage (path_extname S target)))))) \<and>
   (\<exists>ts rid. buildGeneratedFileName S (h @ [Mkdir target]) =
        ''generated-'' @ ts @ ''-'' @ rid @ ''.jpg'' \<and>
      CHR '':'' \<notin> set ts \<and> CHR ''.'' \<notin> set ts \<and> length rid \<le> 6) \<and>
   str_includes (invalidExtensionMessage (path_extname S target)) ''must use a .jpg or .jpeg extension''"
proof (intro conjI impI)
  show "\<exists>ts rid. buildGeneratedFileName S (h @ [Mkdir target]) =
        ''generated-'' @ ts @ ''-'' @ rid @ ''.jpg'' \<and>
      CHR '':'' \<notin> set ts \<and> CHR ''.'' \<notin> set ts \<and> length rid \<le> 6"
    by (rule buildGeneratedFileName_pattern)
  show "str_includes (invalidExtensionMessage (path_extname S target)) ''must use a .jpg or .jpeg extension''"
    using str_includes_append[of "''save_path ''" "''must use a .jpg or .jpeg extension''"
        "'' because this tool outputs JPEG data, got: '' @ path_extname S target"]
    by (simp add: invalidExtensionMessage_def)
qed (simp_all add: resolveOutputFilePath_def resolveOutputFilePath_strict_def
      resolveTarget_directory resolveTarget_jpeg resolveTarget_other)


theorem resolveOutputFilePath_by_extension_witness:
  "effectiveTarget demo_sys (Some ''/tmp/x'') None = Some ''/tmp/x'' \<and>
   path_isAbsolute demo_sys ''/tmp/x'' \<and>
   path_extname demo_sys ''/tmp/x'' = [] \<and>
   resolveOutputFilePath demo_sys [] (Some ''/tmp/x'') None =
     ([Mkdir ''/tmp/x''], Inr ''/tmp/x/generated-2026-01-02T03-04-05-678Z-k3j2h1.jpg'') \<and>
   resolveOutputFilePath_strict demo_sys [] ''/tmp/x'' =
     ([Mkdir ''/tmp/x''], Inr ''/tmp/x/generated-2026-01-02T03-04-05-678Z-k3j2h1.jpg'') \<and>
   effectiveTarget demo_sys (Some ''/tmp/x/image.JPG'') None = Some ''/tmp/x/image.JPG'' \<and>
   path_isAbsolute demo_sys ''/tmp/x/image.JPG'' \<and>
   toLowerCase (path_extname demo_sys ''/tmp/x/image.JPG'') \<in> {''.jpg'', ''.jpeg''} \<and>
   resolveOutputFilePath demo_sys [] (Some ''/tmp/x/image.JPG'') None =
     ([Mkdir ''/tmp/x''], Inr ''/tmp/x/image.JPG'') \<and>
   resolveOutputFilePath_strict demo_sys [] ''/tmp/x/image.JPG'' =
     ([Mkdir ''/tmp/x''], Inr ''/tmp/x/image.JPG'') \<and>
   effectiveTarget demo_sys (Some ''/tmp/x/photo.png'') None = Some ''/tmp/x/photo.png'' \<and>
   path_isAbsolute demo_sys ''/tmp/x/photo.png'' \<and>
   path_extname demo_sys ''/tmp/x/photo.png'' \<noteq> [] \<and>
   toLowerCase (path_extname demo_sys ''/tmp/x/photo.png'') \<notin> {''.jpg'', ''.jpeg''} \<and>
   resolveOutputFilePath demo_sys [] (Some ''/tmp/x/photo.png'') None =
     ([], Inl (newError (invalidExtensionMessage ''.png''))) \<and>
   resolveOutputFilePath_strict demo_sys [] ''/tmp/x/photo.png'' =
     ([], Inl (newError (invalidExtensionMessage ''.png'')))"
proof -
  have dir: "effectiveTarget demo_sys (Some ''/tmp/x'') None = Some ''/tmp/x''"
    "path_isAbsolute demo_sys ''/tmp/x''" "path_extname demo_sys ''/tmp/x'' = []"
    by code_simp+
  have jpg: "effectiveTarget demo_sys (Some ''/tmp/x/image.JPG'') None = Some ''/tmp/x/image.JPG''"
    "path_isAbsolute demo_sys ''/tmp/x/image.JPG''"
    "toLowerCase (path_extname demo_sys ''/tmp/x/image.JPG'') \<in> {''.jpg'', ''.jpeg''}"
    by code_simp+
  have png: "effectiveTarget demo_sys (Some ''/tmp/x/photo.png'') None = Some ''/tmp/x/photo.png''"
    "path_isAbsolute demo_sys ''/tmp/x/photo.png''"
    "path_extname demo_sys ''/tmp/x/photo.png'' \<noteq> [] \<and>
     toLowerCase (path_extname demo_sys ''/tmp/x/photo.png'') \<notin> {''.jpg'', ''.jpeg''}"
    by code_simp+
  have pngext: "path_extname demo_sys ''/tmp/x/photo.png'' = ''.png''"
    by code_simp
  note at_dir = resolveOutputFilePath_by_extension[of demo_sys "Some ''/tmp/x''" None "''/tmp/x''" "[]"]
  note at_jpg = resolveOutputFilePath_by_extension[of demo_sys "Some ''/tmp/x/image.JPG''" None
      "''/tmp/x/image.JPG''" "[]"]
  note at_png = resolveOutputFilePath_by_extension[of demo_sys "Some ''/tmp/x/photo.png''" None
      "''/tmp/x/photo.png''" "[]"]
  have made: "(case fs_outcome demo_sys [] (Mkdir ''/tmp/x'') of
              Inl e \<Rightarrow> Inl e
            | Inr u \<Rightarrow> Inr (path_join demo_sys ''/tmp/x''
                       (buildGeneratedFileName demo_sys ([] @ [Mkdir ''/tmp/x''])))) =
        Inr ''/tmp/x/generated-2026-01-02T03-04-05-678Z-k3j2h1.jpg''"
    by code_simp
  have kept: "(case fs_outcome demo_sys [] (Mkdir ''/tmp/x'') of
              Inl e \<Rightarrow> Inl e
            | Inr u \<Rightarrow> Inr ''/tmp/x/image.JPG'') = Inr ''/tmp/x/image.JPG''"
    "path_dirname demo_sys ''/tmp/x/image.JPG'' = ''/tmp/x''"
    by code_simp+
  have d1: "resolveOutputFilePath demo_sys [] (Some ''/tmp/x'') None =
     ([Mkdir ''/tmp/x''], Inr ''/tmp/x/generated-2026-01-02T03-04-05-678Z-k3j2h1.jpg'')"
    using at_dir[THEN conjunct1, rule_format, OF dir(1), THEN conjunct1, rule_format, OF dir(3)]
    unfolding made by simp
  have d2: "resolveOutputFilePath_strict demo_sys [] ''/tmp/x'' =
     ([Mkdir ''/tmp/x''], Inr ''/tmp/x/generated-2026-01-02T03-04-05-678Z-k3j2h1.jpg'')"
    using at_dir[THEN conjunct2, THEN conjunct1, rule_format, OF dir(2), THEN conjunct1,
        rule_format, OF dir(3)]
    unfolding made by simp
  have j1: "resolveOutputFilePath demo_sys [] (Some ''/tmp/x/image.JPG'') None =
     ([Mkdir ''/tmp/x''], Inr ''/tmp/x/image.JPG'')"
    using at_jpg[THEN conjunct1, rule_format, OF jpg(1), THEN conjunct2, THEN conjunct1,
        rule_format, OF jpg(3)]
    unfolding kept(2) kept(1) by simp
  have j2: "resolveOutputFilePath_strict demo_sys [] ''/tmp/x/image.JPG'' =
     ([Mkdir ''/tmp/x''], Inr ''/tmp/x/image.JPG'')"
    using at_jpg[THEN conjunct2, THEN conjunct1, rule_format, OF jpg(2), THEN conjunct2,
        THEN conjunct1, rule_format, OF jpg(3)]
    unfolding kept(2) kept(1) by simp
  have p1: "resolveOutputFilePath demo_sys [] (Some ''/tmp/x/photo.png'') None =
     ([], Inl (newError (invalidExtensionMessage ''.png'')))"
    using at_png[THEN conjunct1, rule_format, OF png(1), THEN conjunct2, THEN conjunct2,
        rule_format, OF png(3)]
    unfolding pngext by simp
  have p2: "resolveOutputFilePath_strict demo_sys [] ''/tmp/x/photo.png'' =
     ([], Inl (newError (invalidExtensionMessage ''.png'')))"
    using at_png[THEN conjunct2, THEN conjunct1, rule_format, OF png(2), THEN conjunct2,
        THEN conjunct2, rule_format, OF png(3)]
    unfolding pngext by simp
  from dir jpg png d1 d2 j1 j2 p1 p2 show ?thesis
    by (elim conjE) (intro conjI, assumption+)
qed

section \<open>saveImage\<close>

lemma invalidExtensionMessage_phrase:
  "str_includes (invalidExtensionMessage ext) extensionPhrase"
  using str_includes_append[of "''save_path ''" extensionPhrase
      "'' because this tool outputs JPEG data, got: '' @ ext"]
  by (simp add: invalidExtensionMessage_def extensionPhrase_def)

lemma saveImage_empty_payload:
  assumes "buffer_from_base64 S data = []"
  shows "saveImage S h data savePath = (h, Inl (newError emptyPayloadMessage))"
  using assms by (simp add: saveImage_def)

lemma saveImage_nonempty_payload:
  assumes "buffer_from_base64 S data \<noteq> []"
  shows "saveImage S h data savePath =
           saveImage_loop S savePath (buffer_from_base64 S data)
             (buildAttempts savePath (getDefaultOutputDirectories S)) None None h"
  using assms by (simp add: saveImage_def Let_def)

lemma buildAttempts_requested:
  assumes "sp \<noteq> []"
  shows "\<exists>rest. buildAttempts (Some sp) dirs = requestedAttempt sp # rest \<and>
           (\<forall>a\<in>set rest. attempt_savePath a = None \<and> attempt_defaultDir a \<in> Some ` set dirs)"
  using assms by (auto simp: buildAttempts_def requestedAttempt_def in_set_enumerate_eq)

lemma buildAttempts_defaults:
  assumes "\<not> truthy savePath"
  shows "\<forall>a\<in>set (buildAttempts savePath dirs).
           attempt_savePath a = None \<and> attempt_defaultDir a \<in> Some ` set dirs"
proof (cases savePath)
  case None
  then show ?thesis
    by (auto simp: buildAttempts_def in_set_enumerate_eq)
next
  case (Some sp)
  with assms have "sp = []"
    by simp
  with Some show ?thesis
    by (auto simp: buildAttempts_def in_set_enumerate_eq)
qed

lemma saveAttempt_requested_invalid_extension:
  assumes "sp \<noteq> []"
      and "path_extname S (normalizePathInput S sp) \<noteq> []"
      and "toLowerCase (path_extname S (normalizePathInput S sp)) \<notin> {''.jpg'', ''.jpeg''}"
  shows "saveAttempt S h buffer (requestedAttempt sp) =
           (h, Inl (newError (invalidExtensionMessage (path_extname S (normalizePathInput S sp)))))"
  using assms
  by (simp add: saveAttempt_def requestedAttempt_def resolveOutputFilePath_def effectiveTarget_def
      resolveTarget_other)

text \<open>
  Claim C3. In the variant with fallback directories, a caller-supplied \<open>save_path\<close>
  whose normalised form has an extension that does not lower-case to \<open>.jpg\<close> or
  \<open>.jpeg\<close> makes \<open>saveImage\<close> fail with the history of file operations unchanged:
  nothing is attempted against a default directory. The error is the invalid-extension
  error whenever the payload is not empty, the case in which attempts begin; an empty
  payload is rejected before any attempt, with the empty-payload error.
\<close>

theorem invalid_extension_is_fatal:
  assumes "sp \<noteq> []"
      and "path_extname S (normalizePathInput S sp) \<noteq> []"
      and "toLowerCase (path_extname S (normalizePathInput S sp)) \<notin> {''.jpg'', ''.jpeg''}"
  shows "fst (saveImage S h data (Some sp)) = h \<and>
         (buffer_from_base64 S data \<noteq> [] \<longrightarrow>
            saveImage S h data (Some sp) =
              (h, Inl (newError (invalidExtensionMessage (path_extname S (normalizePathInput S sp)))))) \<and>
         (buffer_from_base64 S data = [] \<longrightarrow>
            saveImage S h data (Some sp) = (h, Inl (newError emptyPayloadMessage))) \<and>
         str_includes (invalidExtensionMessage (path_extname S (normalizePathInput S sp)))
           ''must use a .jpg or .jpeg extension''"
proof -
  let ?buffer = "buffer_from_base64 S data"
  let ?error = "newError (invalidExtensionMessage (path_extname S (normalizePathInput S sp)))"
  from buildAttempts_requested[OF assms(1)] obtain rest
    where attempts: "buildAttempts (Some sp) (getDefaultOutputDirectories S) = requestedAttempt sp # rest"
    by blast
  have fatal: "isFatalExtensionError (requestedAttempt sp) ?error"
    using assms(1) invalidExtensionMessage_phrase
    by (simp add: isFatalExtensionError_def requestedAttempt_def)
  have filled: "saveImage S h data (Some sp) = (h, Inl ?error)" if payload: "?buffer \<noteq> []"
  proof -
    have "saveImage S h data (Some sp) =
            saveImage_loop S (Some sp) ?buffer (requestedAttempt sp # rest) None None h"
      using saveImage_nonempty_payload[OF payload] by (simp only: attempts)
    also have "\<dots> = (h, Inl ?error)"
      using fatal by (simp add: saveAttempt_requested_invalid_extension[OF assms])
    finally show ?thesis .
  qed
  have empty: "saveImage S h data (Some sp) = (h, Inl (newError emptyPayloadMessage))"
    if "?buffer = []"
    using that by (rule saveImage_empty_payload)
  from filled empty have untouched: "fst (saveImage S h data (Some sp)) = h"
    by (cases "?buffer = []") simp_all
  have phrase: "str_includes (invalidExtensionMessage (path_extname S (normalizePathInput S sp)))
           ''must use a .jpg or .jpeg extension''"
    using invalidExtensionMessage_phrase by (simp add: extensionPhrase_def)
  from untouched filled empty phrase show ?thesis
    by blast
qed

theorem invalid_extension_is_fatal_witness:
  "buffer_from_base64 demo_sys ''abc'' \<noteq> [] \<and>
   path_extname demo_sys (normalizePathInput demo_sys ''/tmp/x/photo.png'') = ''.png'' \<and>
   toLowerCase ''.png'' \<notin> {''.jpg'', ''.jpeg''} \<and>
   getDefaultOutputDirectories demo_sys = [''/home/u/nano-banana-images'', ''/tmp/nano-banana-images''] \<and>
   saveImage demo_sys [] ''abc'' (Some ''/tmp/x/photo.png'') =
     ([], Inl (newError (invalidExtensionMessage ''.png'')))"
proof -
  have payload: "buffer_from_base64 demo_sys ''abc'' \<noteq> []"
    by code_simp
  have given: "''/tmp/x/photo.png'' \<noteq> []"
    by simp
  have ext: "path_extname demo_sys (normalizePathInput demo_sys ''/tmp/x/photo.png'') = ''.png''"
    by code_simp
  have other: "toLowerCase ''.png'' \<notin> {''.jpg'', ''.jpeg''}"
    by code_simp
  have dirs: "getDefaultOutputDirectories demo_sys =
      [''/home/u/nano-banana-images'', ''/tmp/nano-banana-images'']"
    by code_simp
  have nonempty: "path_extname demo_sys (normalizePathInput demo_sys ''/tmp/x/photo.png'') \<noteq> []"
    unfolding ext by simp
  have other': "toLowerCase (path_extname demo_sys (normalizePathInput demo_sys ''/tmp/x/photo.png''))
      \<notin> {''.jpg'', ''.jpeg''}"
    unfolding ext by (rule other)
  from invalid_extension_is_fatal[OF given nonempty other', of "[]" "''abc''",
      THEN conjunct2, THEN conjunct1, rule_format, OF payload]
  have "saveImage demo_sys [] ''abc'' (Some ''/tmp/x/photo.png'') =
     ([], Inl (newError (invalidExtensionMessage ''.png'')))"
    unfolding ext .
  with payload ext other dirs show ?thesis
    by (intro conjI)
qed


subsection \<open>The warning of a successful save\<close>

lemma defaultAttempt_eq:
  assumes "attempt_savePath a = None" and "attempt_defaultDir a = Some dir"
  shows "a = defaultAttempt dir (attempt_label a)"
  using assms by (cases a) (simp add: defaultAttempt_def)

lemma resolveTarget_extends:
  assumes "resolveTarget S h target = (h1, r)"
  shows "\<exists>ext. h1 = h @ ext"
  using assms by (auto simp: resolveTarget_def Let_def split: sum.splits if_splits)

lemma resolveOutputFilePath_extends:
  assumes "resolveOutputFilePath S h savePath defaultDir = (h1, r)"
  shows "\<exists>ext. h1 = h @ ext"
  using assms resolveTarget_extends
  by (auto simp: resolveOutputFilePath_def split: option.splits)

lemma saveAttempt_extends:
  assumes "saveAttempt S h buffer a = (h1, r)"
  shows "\<exists>ext. h1 = h @ ext"
proof -
  obtain h0 r0 where resolved:
    "resolveOutputFilePath S h (attempt_savePath a) (attempt_defaultDir a) = (h0, r0)"
    by (cases "resolveOutputFilePath S h (attempt_savePath a) (attempt_defaultDir a)")
  from resolveOutputFilePath_extends[OF resolved] obtain ext where "h0 = h @ ext"
    by blast
  with assms resolved show ?thesis
    by (auto simp: saveAttempt_def split: sum.splits if_splits)
qed

lemma saveImage_loop_defaults:
  assumes "\<forall>a\<in>set as. attempt_savePath a = None"
      and "saveImage_loop S savePath buffer as ffm le h = (h', Inr res)"
  shows "(\<exists>a\<in>set as. \<exists>ext. saveAttempt S (h @ ext) buffer a = (h', Inr (filePath res))) \<and>
         (truthy ffm \<longrightarrow> (warning res \<noteq> None) = truthy savePath) \<and>
         (\<not> truthy savePath \<longrightarrow> warning res = None)"
  using assms
proof (induction as arbitrary: ffm le h)
  case Nil
  then show ?case
    by (simp add: Let_def)
next
  case (Cons a rest)
  from Cons.prems(1) have a: "attempt_savePath a = None"
    and rest: "\<forall>a\<in>set rest. attempt_savePath a = None"
    by simp_all
  obtain h1 r1 where attempt: "saveAttempt S h buffer a = (h1, r1)"
    by (cases "saveAttempt S h buffer a")
  show ?case
  proof (cases r1)
    case (Inr path)
    with Cons.prems(2) attempt a
    have "h' = h1" and "filePath res = path"
      and "warning res \<noteq> None \<longleftrightarrow> truthy savePath \<and> truthy ffm"
      by (auto split: if_splits)
    moreover from attempt Inr \<open>h' = h1\<close> \<open>filePath res = path\<close>
    have "saveAttempt S (h @ []) buffer a = (h', Inr (filePath res))"
      by simp
    then have "\<exists>a'\<in>set (a # rest). \<exists>ext. saveAttempt S (h @ ext) buffer a' = (h', Inr (filePath res))"
      by (intro bexI[of _ a] exI[of _ "[]"]) simp_all
    ultimately show ?thesis
      by auto
  next
    case (Inl error)
    have "\<not> isFatalExtensionError a error"
      using a by (simp add: isFatalExtensionError_def)
    with Cons.prems(2) attempt Inl
    have continue: "saveImage_loop S savePath buffer rest
        (if \<not> truthy ffm then Some (attempt_label a @ '': '' @ messageOrString error) else ffm)
        (Some error) h1 = (h', Inr res)"
      by simp
    have kept: "truthy ffm \<Longrightarrow>
        truthy (if \<not> truthy ffm then Some (attempt_label a @ '': '' @ messageOrString error) else ffm)"
      by simp
    from saveAttempt_extends[OF attempt] obtain ext1 where ext1: "h1 = h @ ext1"
      by blast
    from Cons.IH[OF rest continue] obtain a' ext'
      where found: "a' \<in> set rest" "saveAttempt S (h1 @ ext') buffer a' = (h', Inr (filePath res))"
      by blast
    from found(2) ext1 have "saveAttempt S (h @ (ext1 @ ext')) buffer a' = (h', Inr (filePath res))"
      by simp
    with found(1)
    have "\<exists>a'\<in>set (a # rest). \<exists>ext. saveAttempt S (h @ ext) buffer a' = (h', Inr (filePath res))"
      by (intro bexI[of _ a'] exI[of _ "ext1 @ ext'"]) simp_all
    with Cons.IH[OF rest continue] kept show ?thesis
      by simp
  qed
qed


lemma saveImage_success_nonempty:
  assumes "saveImage S h data savePath = (h', Inr res)"
  shows "buffer_from_base64 S data \<noteq> []"
  using assms by (auto simp: saveImage_def)

lemma saveImage_without_request:
  assumes "\<not> truthy savePath" and "saveImage S h data savePath = (h', Inr res)"
  shows "warning res = None"
proof -
  from buildAttempts_defaults[OF assms(1)]
  have defaults: "\<forall>a\<in>set (buildAttempts savePath (getDefaultOutputDirectories S)).
      attempt_savePath a = None"
    by blast
  from assms(2) saveImage_nonempty_payload[OF saveImage_success_nonempty[OF assms(2)]]
  have "saveImage_loop S savePath (buffer_from_base64 S data)
          (buildAttempts savePath (getDefaultOutputDirectories S)) None None h = (h', Inr res)"
    by simp
  from saveImage_loop_defaults[OF defaults this] assms(1) show ?thesis
    by blast
qed

lemma saveImage_request_succeeds:
  assumes "sp \<noteq> []"
      and "saveAttempt S h (buffer_from_base64 S data) (requestedAttempt sp) = (h1, Inr path)"
      and "saveImage S h data (Some sp) = (h', Inr res)"
  shows "warning res = None \<and> filePath res = path \<and> h' = h1"
proof -
  from buildAttempts_requested[OF assms(1)] obtain rest
    where attempts: "buildAttempts (Some sp) (getDefaultOutputDirectories S) = requestedAttempt sp # rest"
    by blast
  from assms(3) saveImage_nonempty_payload[OF saveImage_success_nonempty[OF assms(3)]]
  have "saveImage_loop S (Some sp) (buffer_from_base64 S data) (requestedAttempt sp # rest)
          None None h = (h', Inr res)"
    by (simp only: attempts)
  with assms(1,2) show ?thesis
    by (auto simp: requestedAttempt_def)
qed

lemma saveImage_request_fails:
  assumes "sp \<noteq> []"
      and "saveAttempt S h (buffer_from_base64 S data) (requestedAttempt sp) = (h1, Inl e)"
      and "saveImage S h data (Some sp) = (h', Inr res)"
  shows "warning res \<noteq> None \<and>
         \<not> (instanceofError e \<and> str_includes (messageOrString e) ''must use a .jpg or .jpeg extension'') \<and>
         (\<exists>dir\<in>set (getDefaultOutputDirectories S). \<exists>label ext.
             saveAttempt S (h1 @ ext) (buffer_from_base64 S data) (defaultAttempt dir label) =
               (h', Inr (filePath res)))"
proof -
  let ?buffer = "buffer_from_base64 S data"
  from buildAttempts_requested[OF assms(1)] obtain rest
    where attempts: "buildAttempts (Some sp) (getDefaultOutputDirectories S) = requestedAttempt sp # rest"
      and rest: "\<forall>a\<in>set rest. attempt_savePath a = None \<and>
                   attempt_defaultDir a \<in> Some ` set (getDefaultOutputDirectories S)"
    by blast
  from assms(3) saveImage_nonempty_payload[OF saveImage_success_nonempty[OF assms(3)]]
  have loop: "saveImage_loop S (Some sp) ?buffer (requestedAttempt sp # rest) None None h = (h', Inr res)"
    by (simp only: attempts)
  have notfatal: "\<not> isFatalExtensionError (requestedAttempt sp) e"
  proof
    assume "isFatalExtensionError (requestedAttempt sp) e"
    with loop assms(2) show False
      by simp
  qed
  with loop assms(2)
  have continue: "saveImage_loop S (Some sp) ?buffer rest
      (Some (attempt_label (requestedAttempt sp) @ '': '' @ messageOrString e)) (Some e) h1 =
      (h', Inr res)"
    by simp
  from rest have defaults: "\<forall>a\<in>set rest. attempt_savePath a = None"
    by blast
  from saveImage_loop_defaults[OF defaults continue] assms(1)
  have warned: "warning res \<noteq> None"
    and "\<exists>a\<in>set rest. \<exists>ext. saveAttempt S (h1 @ ext) ?buffer a = (h', Inr (filePath res))"
    by simp_all
  then obtain a ext
    where a: "a \<in> set rest" "saveAttempt S (h1 @ ext) ?buffer a = (h', Inr (filePath res))"
    by blast
  from rest a(1) obtain dir where dir: "dir \<in> set (getDefaultOutputDirectories S)"
    "attempt_savePath a = None" "attempt_defaultDir a = Some dir"
    by auto
  from defaultAttempt_eq[OF dir(2,3)] a(2)
  have "saveAttempt S (h1 @ ext) ?buffer (defaultAttempt dir (attempt_label a)) =
      (h', Inr (filePath res))"
    by simp
  with dir(1) have found: "\<exists>dir\<in>set (getDefaultOutputDirectories S). \<exists>label ext.
             saveAttempt S (h1 @ ext) ?buffer (defaultAttempt dir label) = (h', Inr (filePath res))"
    by blast
  from notfatal assms(1)
  have "\<not> (instanceofError e \<and> str_includes (messageOrString e) ''must use a .jpg or .jpeg extension'')"
    by (simp add: isFatalExtensionError_def requestedAttempt_def extensionPhrase_def)
  with warned found show ?thesis
    by blast
qed

text \<open>
  Claim C4. For a successful \<open>saveImage\<close> of the variant with fallback directories,
  the outcome carries a warning exactly when a non-empty \<open>save_path\<close> was supplied, the
  attempt for it failed with an error that is not the fatal extension error, and the
  path returned was written by an attempt for one of the default directories, made
  after it (from a history that extends the one the failed attempt left). In
  particular there is no warning when no \<open>save_path\<close> is supplied, and none when the
  attempt for the supplied \<open>save_path\<close> succeeds, in which case its path is returned.
\<close>

theorem warning_iff_fallback_after_failed_request:
  assumes "saveImage S h data savePath = (h', Inr res)"
  shows "((warning res \<noteq> None) =
            (\<exists>sp. savePath = Some sp \<and> sp \<noteq> [] \<and>
               (\<exists>h1 e. saveAttempt S h (buffer_from_base64 S data) (requestedAttempt sp) = (h1, Inl e) \<and>
                  \<not> (instanceofError e \<and>
                     str_includes (messageOrString e) ''must use a .jpg or .jpeg extension'') \<and>
                  (\<exists>dir\<in>set (getDefaultOutputDirectories S). \<exists>label ext.
                     saveAttempt S (h1 @ ext) (buffer_from_base64 S data) (defaultAttempt dir label) =
                       (h', Inr (filePath res)))))) \<and>
         (\<not> truthy savePath \<longrightarrow> warning res = None) \<and>
         (\<forall>sp h1 path. savePath = Some sp \<and> sp \<noteq> [] \<and>
            saveAttempt S h (buffer_from_base64 S data) (requestedAttempt sp) = (h1, Inr path) \<longrightarrow>
            warning res = None \<and> filePath res = path \<and> h' = h1)"
proof (cases "truthy savePath")
  case False
  from saveImage_without_request[OF False assms] have none: "warning res = None" .
  from False have "\<not> (\<exists>sp. savePath = Some sp \<and> sp \<noteq> [])"
    by auto
  with none False show ?thesis
    by blast
next
  case True
  then obtain sp where sp: "savePath = Some sp" "sp \<noteq> []"
    by (cases savePath) auto
  obtain h1 r1 where attempt:
    "saveAttempt S h (buffer_from_base64 S data) (requestedAttempt sp) = (h1, r1)"
    by (cases "saveAttempt S h (buffer_from_base64 S data) (requestedAttempt sp)")
  show ?thesis
  proof (cases r1)
    case (Inr path)
    from saveImage_request_succeeds[OF sp(2) attempt[unfolded Inr] assms[unfolded sp(1)]]
    have "warning res = None" "filePath res = path" "h' = h1"
      by simp_all
    with sp attempt Inr True show ?thesis
      by auto
  next
    case (Inl e)
    from saveImage_request_fails[OF sp(2) attempt[unfolded Inl] assms[unfolded sp(1)]]
    have "warning res \<noteq> None"
      and "\<not> (instanceofError e \<and> str_includes (messageOrString e) ''must use a .jpg or .jpeg extension'')"
      and "\<exists>dir\<in>set (getDefaultOutputDirectories S). \<exists>label ext.
             saveAttempt S (h1 @ ext) (buffer_from_base64 S data) (defaultAttempt dir label) =
               (h', Inr (filePath res))"
      by simp_all
    with sp attempt Inl True show ?thesis
      by auto
  qed
qed


theorem warning_iff_fallback_after_failed_request_witness:
  "saveImage (demo_sys\<lparr>fs_outcome := blocked_fs\<rparr>) [] ''abc'' (Some ''/blocked/out.jpg'') =
     ([Mkdir ''/blocked'', Mkdir ''/home/u/nano-banana-images'', WriteFile ''/home/u/nano-banana-images/generated-2026-01-02T03-04-05-678Z-k3j2h1.jpg'' ''abc'', Stat ''/home/u/nano-banana-images/generated-2026-01-02T03-04-05-678Z-k3j2h1.jpg''],
      Inr \<lparr>filePath = ''/home/u/nano-banana-images/generated-2026-01-02T03-04-05-678Z-k3j2h1.jpg'', warning = Some (fallbackWarning ''/blocked/out.jpg'' (attempt_label (requestedAttempt ''/blocked/out.jpg'') @ '': ENOTDIR: not a directory''))\<rparr>) \<and>
   (\<exists>sp. Some ''/blocked/out.jpg'' = Some sp \<and> sp \<noteq> [] \<and>
      (\<exists>h1 e. saveAttempt (demo_sys\<lparr>fs_outcome := blocked_fs\<rparr>) [] (buffer_from_base64 (demo_sys\<lparr>fs_outcome := blocked_fs\<rparr>) ''abc'') (requestedAttempt sp) = (h1, Inl e) \<and>
         \<not> (instanceofError e \<and>
            str_includes (messageOrString e) ''must use a .jpg or .jpeg extension'') \<and>
         (\<exists>dir\<in>set (getDefaultOutputDirectories (demo_sys\<lparr>fs_outcome := blocked_fs\<rparr>)). \<exists>label ext.
            saveAttempt (demo_sys\<lparr>fs_outcome := blocked_fs\<rparr>) (h1 @ ext) (buffer_from_base64 (demo_sys\<lparr>fs_outcome := blocked_fs\<rparr>) ''abc'') (defaultAttempt dir label) =
              ([Mkdir ''/blocked'', Mkdir ''/home/u/nano-banana-images'', WriteFile ''/home/u/nano-banana-images/generated-2026-01-02T03-04-05-678Z-k3j2h1.jpg'' ''abc'', Stat ''/home/u/nano-banana-images/generated-2026-01-02T03-04-05-678Z-k3j2h1.jpg''],
               Inr (filePath \<lparr>filePath = ''/home/u/nano-banana-images/generated-2026-01-02T03-04-05-678Z-k3j2h1.jpg'', warning = Some (fallbackWarning ''/blocked/out.jpg'' (attempt_label (requestedAttempt ''/blocked/out.jpg'') @ '': ENOTDIR: not a directory''))\<rparr>))))) \<and>
   \<not> truthy None \<and>
   saveImage demo_sys [] ''abc'' None =
     ([Mkdir ''/home/u/nano-banana-images'', WriteFile ''/home/u/nano-banana-images/generated-2026-01-02T03-04-05-678Z-k3j2h1.jpg'' ''abc'', Stat ''/home/u/nano-banana-images/generated-2026-01-02T03-04-05-678Z-k3j2h1.jpg''],
      Inr \<lparr>filePath = ''/home/u/nano-banana-images/generated-2026-01-02T03-04-05-678Z-k3j2h1.jpg'', warning = None\<rparr>) \<and>
   warning \<lparr>filePath = ''/home/u/nano-banana-images/generated-2026-01-02T03-04-05-678Z-k3j2h1.jpg'', warning = None\<rparr> = None \<and>
   saveAttempt demo_sys [] (buffer_from_base64 demo_sys ''abc'') (requestedAttempt ''/tmp/x/photo.JPG'') =
     ([Mkdir ''/tmp/x'', WriteFile ''/tmp/x/photo.JPG'' ''abc'', Stat ''/tmp/x/photo.JPG''], Inr ''/tmp/x/photo.JPG'') \<and>
   saveImage demo_sys [] ''abc'' (Some ''/tmp/x/photo.JPG'') =
     ([Mkdir ''/tmp/x'', WriteFile ''/tmp/x/photo.JPG'' ''abc'', Stat ''/tmp/x/photo.JPG''],
      Inr \<lparr>filePath = ''/tmp/x/photo.JPG'', warning = None\<rparr>) \<and>
   warning \<lparr>filePath = ''/tmp/x/photo.JPG'', warning = None\<rparr> = None"
proof -
  have blocked: "saveImage (demo_sys\<lparr>fs_outcome := blocked_fs\<rparr>) [] ''abc'' (Some ''/blocked/out.jpg'') =
     ([Mkdir ''/blocked'', Mkdir ''/home/u/nano-banana-images'', WriteFile ''/home/u/nano-banana-images/generated-2026-01-02T03-04-05-678Z-k3j2h1.jpg'' ''abc'', Stat ''/home/u/nano-banana-images/generated-2026-01-02T03-04-05-678Z-k3j2h1.jpg''],
      Inr \<lparr>filePath = ''/home/u/nano-banana-images/generated-2026-01-02T03-04-05-678Z-k3j2h1.jpg'', warning = Some (fallbackWarning ''/blocked/out.jpg'' (attempt_label (requestedAttempt ''/blocked/out.jpg'') @ '': ENOTDIR: not a directory''))\<rparr>)"
    by code_simp
  have warned: "warning \<lparr>filePath = ''/home/u/nano-banana-images/generated-2026-01-02T03-04-05-678Z-k3j2h1.jpg'', warning = Some (fallbackWarning ''/blocked/out.jpg'' (attempt_label (requestedAttempt ''/blocked/out.jpg'') @ '': ENOTDIR: not a directory''))\<rparr> \<noteq> None"
    by simp
  have fallback: "(\<exists>sp. Some ''/blocked/out.jpg'' = Some sp \<and> sp \<noteq> [] \<and>
      (\<exists>h1 e. saveAttempt (demo_sys\<lparr>fs_outcome := blocked_fs\<rparr>) [] (buffer_from_base64 (demo_sys\<lparr>fs_outcome := blocked_fs\<rparr>) ''abc'') (requestedAttempt sp) = (h1, Inl e) \<and>
         \<not> (instanceofError e \<and>
            str_includes (messageOrString e) ''must use a .jpg or .jpeg extension'') \<and>
         (\<exists>dir\<in>set (getDefaultOutputDirectories (demo_sys\<lparr>fs_outcome := blocked_fs\<rparr>)). \<exists>label ext.
            saveAttempt (demo_sys\<lparr>fs_outcome := blocked_fs\<rparr>) (h1 @ ext) (buffer_from_base64 (demo_sys\<lparr>fs_outcome := blocked_fs\<rparr>) ''abc'') (defaultAttempt dir label) =
              ([Mkdir ''/blocked'', Mkdir ''/home/u/nano-banana-images'', WriteFile ''/home/u/nano-banana-images/generated-2026-01-02T03-04-05-678Z-k3j2h1.jpg'' ''abc'', Stat ''/home/u/nano-banana-images/generated-2026-01-02T03-04-05-678Z-k3j2h1.jpg''],
               Inr (filePath \<lparr>filePath = ''/home/u/nano-banana-images/generated-2026-01-02T03-04-05-678Z-k3j2h1.jpg'', warning = Some (fallbackWarning ''/blocked/out.jpg'' (attempt_label (requestedAttempt ''/blocked/out.jpg'') @ '': ENOTDIR: not a directory''))\<rparr>)))))"
    by (rule iffD1[OF warning_iff_fallback_after_failed_request[OF blocked, THEN conjunct1] warned])
  have absent: "\<not> truthy None"
    by simp
  have unrequested: "saveImage demo_sys [] ''abc'' None =
     ([Mkdir ''/home/u/nano-banana-images'', WriteFile ''/home/u/nano-banana-images/generated-2026-01-02T03-04-05-678Z-k3j2h1.jpg'' ''abc'', Stat ''/home/u/nano-banana-images/generated-2026-01-02T03-04-05-678Z-k3j2h1.jpg''],
      Inr \<lparr>filePath = ''/home/u/nano-banana-images/generated-2026-01-02T03-04-05-678Z-k3j2h1.jpg'', warning = None\<rparr>)"
    by code_simp
  have silent: "warning \<lparr>filePath = ''/home/u/nano-banana-images/generated-2026-01-02T03-04-05-678Z-k3j2h1.jpg'', warning = None\<rparr> = None"
    by (rule warning_iff_fallback_after_failed_request[OF unrequested, THEN conjunct2, THEN conjunct1,
          rule_format, OF absent])
  have direct: "saveAttempt demo_sys [] (buffer_from_base64 demo_sys ''abc'') (requestedAttempt ''/tmp/x/photo.JPG'') =
     ([Mkdir ''/tmp/x'', WriteFile ''/tmp/x/photo.JPG'' ''abc'', Stat ''/tmp/x/photo.JPG''], Inr ''/tmp/x/photo.JPG'')"
    by code_simp
  have requested: "saveImage demo_sys [] ''abc'' (Some ''/tmp/x/photo.JPG'') =
     ([Mkdir ''/tmp/x'', WriteFile ''/tmp/x/photo.JPG'' ''abc'', Stat ''/tmp/x/photo.JPG''],
      Inr \<lparr>filePath = ''/tmp/x/photo.JPG'', warning = None\<rparr>)"
    by code_simp
  have given: "Some ''/tmp/x/photo.JPG'' = Some ''/tmp/x/photo.JPG'' \<and> ''/tmp/x/photo.JPG'' \<noteq> [] \<and>
      saveAttempt demo_sys [] (buffer_from_base64 demo_sys ''abc'') (requestedAttempt ''/tmp/x/photo.JPG'') =
     ([Mkdir ''/tmp/x'', WriteFile ''/tmp/x/photo.JPG'' ''abc'', Stat ''/tmp/x/photo.JPG''], Inr ''/tmp/x/photo.JPG'')"
    using direct by simp
  have kept: "warning \<lparr>filePath = ''/tmp/x/photo.JPG'', warning = None\<rparr> = None"
    by (rule warning_iff_fallback_after_failed_request[OF requested, THEN conjunct2, THEN conjunct2,
          rule_format, OF given, THEN conjunct1])
  from blocked fallback absent unrequested silent direct requested kept show ?thesis
    by (intro conjI)
qed

subsection \<open>The empty payload\<close>

text \<open>
  Claim C2 holds of the variant with fallback directories (\<open>saveImage_empty_payload\<close>
  above: the history is returned unchanged). The variant that requires an absolute path
  resolves the path first: for the empty payload and the directory \<open>/tmp/out\<close> it asks
  for the directory to be created and then fails with the empty-payload error, and for
  \<open>/tmp/x/photo.png\<close> it fails with the invalid-extension error instead.
\<close>

theorem strict_saveImage_resolves_before_payload_check:
  "buffer_from_base64 demo_sys [] = [] \<and>
   saveImage_strict demo_sys [] [] ''/tmp/out'' =
     ([Mkdir ''/tmp/out''], Inl (newError emptyPayloadMessage)) \<and>
   saveImage_strict demo_sys [] [] ''/tmp/x/photo.png'' =
     ([], Inl (newError (invalidExtensionMessage ''.png''))) \<and>
   saveImage demo_sys [] [] (Some ''/tmp/out'') = ([], Inl (newError emptyPayloadMessage))"
  by code_simp

end
